theory Spec2Isabelle
  imports Main
begin

section \<open>The gasless-transaction relay path of the module base class\<close>

text \<open>
  A shallow embedding of the methods \<^verbatim>\<open>getCallOverrides\<close>, \<^verbatim>\<open>sendTransaction\<close>,
  \<^verbatim>\<open>sendContractTransaction\<close>, \<^verbatim>\<open>sendAndWaitForTransaction\<close> and
  \<^verbatim>\<open>sendGaslessTransaction\<close> of the class \<^verbatim>\<open>Module\<close>.

  Every \<^verbatim>\<open>await\<close> on a collaborator (provider, signer, contract binding, relay) is a
  step that appends one event to the trace of the call and then either resolves or
  rejects; a rejection and a failed \<^verbatim>\<open>invariant\<close> end the call with an error value.
  The only state that survives a call is the client-side nonce cache.
\<close>

subsection \<open>Values, rendering of numbers, strings\<close>

type_synonym address = string

datatype error = InvariantError string | Rejected string

text \<open>Call arguments (\<^verbatim>\<open>any[]\<close>): addresses and byte strings, or numbers.\<close>

datatype jsval = JStr string | JNum int

text \<open>\<^verbatim>\<open>BigNumber.toString()\<close>: decimal digits, most significant first, a minus sign for
  negative numbers.\<close>

function dec_digits :: "nat \<Rightarrow> string" where
  "dec_digits n =
     (if n < 10 then [''0123456789'' ! n] else dec_digits (n div 10) @ [''0123456789'' ! (n mod 10)])"
  by pat_completeness auto
termination
  by (relation "measure (\<lambda>n. n)") auto

declare dec_digits.simps [simp del]

definition bn_toString :: "int \<Rightarrow> string" where
  "bn_toString i = (if i < 0 then CHR ''-'' # dec_digits (nat (- i)) else dec_digits (nat i))"

text \<open>\<^verbatim>\<open>Number.prototype.toString(16)\<close> on a non-negative integer: lower-case hexadecimal
  digits, no padding.\<close>

function toString16 :: "nat \<Rightarrow> string" where
  "toString16 n =
     (if n < 16 then [''0123456789abcdef'' ! n]
      else toString16 (n div 16) @ [''0123456789abcdef'' ! (n mod 16)])"
  by pat_completeness auto
termination
  by (relation "measure (\<lambda>n. n)") auto

declare toString16.simps [simp del]

text \<open>\<^verbatim>\<open>String.prototype.toLowerCase\<close> on the ASCII range (addresses are hexadecimal text).\<close>

definition toLowerCase :: "string \<Rightarrow> string" where
  "toLowerCase str =
     map (\<lambda>ch. case map_of (zip ''ABCDEFGHIJKLMNOPQRSTUVWXYZ'' ''abcdefghijklmnopqrstuvwxyz'') ch of
                None \<Rightarrow> ch
              | Some lower \<Rightarrow> lower) str"

subsection \<open>Data model\<close>

record receipt =
  status :: int
  transactionHash :: string

record callOverrides =
  ov_value :: "int option"
  ov_gasPrice :: "int option"

record forwardRequestMessage =
  req_from :: address
  req_to :: address
  req_value :: string
  req_gas :: string
  req_nonce :: string
  req_data :: string

text \<open>What \<^verbatim>\<open>signERC2612Permit\<close> resolves to: the permit message and the split signature.\<close>

record permit =
  permit_owner :: address
  permit_spender :: address
  permit_value :: jsval
  permit_nonce :: jsval
  permit_deadline :: jsval
  permit_v :: nat
  permit_r :: string
  permit_s :: string

text \<open>\<^verbatim>\<open>ForwardRequestMessage | PermitRequestMessage\<close>; the latter is
  \<^verbatim>\<open>{ to: contract.address, ...permit }\<close>.\<close>

datatype message =
    ForwardRequestMessage forwardRequestMessage
  | PermitRequestMessage address permit

record domain =
  domain_name :: string
  domain_version :: string
  domain_chainId :: int
  domain_verifyingContract :: address

text \<open>An EIP-712 type table: struct name and its list of (field name, field type).\<close>

type_synonym eip712_types = "(string \<times> (string \<times> string) list) list"

datatype tx = WithWait "error + receipt" | NoWait receipt

datatype event =
    GetNetwork
  | GetGasPrice int string int
  | GetAddress
  | EstimateGas address string "jsval list"
  | GetNonce address address
  | SignPermit address address jsval jsval
  | RpcSend string "string list"
  | SignTypedData domain eip712_types forwardRequestMessage
  | RelaySend message string
  | WaitForTransaction string
  | ContractCall address string "jsval list" callOverrides
  | TxWait

subsection \<open>Collaborators\<close>

record provider =
  getNetwork :: "error + int"
  waitForTransaction :: "string \<Rightarrow> error + receipt"

record externalProvider =
  isWalletConnect :: "bool option"

record web3Provider =
  externalProvider :: "externalProvider option"
  send :: "string \<Rightarrow> string list \<Rightarrow> error + string"

record signer =
  getAddress :: "error + address"
  signer_provider :: "web3Provider option"
  signTypedData :: "domain \<Rightarrow> eip712_types \<Rightarrow> forwardRequestMessage \<Rightarrow> error + string"

record baseContract =
  contract_address :: address
  contract_provider :: "provider option"
  interface_functions :: "string list"
  encodeFunctionData :: "string \<Rightarrow> jsval list \<Rightarrow> error + string"
  estimateGas :: "string \<Rightarrow> jsval list \<Rightarrow> error + int"
  contract_functions :: "string \<Rightarrow> jsval list \<Rightarrow> callOverrides \<Rightarrow> error + tx"

record iSDKOptions =
  gasSpeed :: string
  maxGasPriceInGwei :: int
  transactionRelayerUrl :: string
  transactionRelayerForwarderAddress :: address
  transactionRelayerSendFunction :: "message \<Rightarrow> string \<Rightarrow> error + string"

text \<open>The fields of a \<^verbatim>\<open>Module\<close> instance that the transaction paths read.\<close>

record module =
  address :: address
  options :: iSDKOptions
  signer :: "signer option"
  contract :: baseContract
  readOnlyContract :: baseContract

text \<open>The imported functions and constants whose code is outside these sources; they are
  parameters of the model. \<open>'p\<close> is the type of a typed-data payload.\<close>

record 'p lib =
  forwarder_getNonce :: "address \<Rightarrow> address \<Rightarrow> error + int"
  signERC2612Permit :: "signer \<Rightarrow> address \<Rightarrow> address \<Rightarrow> jsval \<Rightarrow> jsval \<Rightarrow> error + permit"
  getPayload :: "domain \<Rightarrow> eip712_types \<Rightarrow> forwardRequestMessage \<Rightarrow> 'p"
  JSON_stringify :: "'p \<Rightarrow> string"
  getGasPriceForChain :: "int \<Rightarrow> string \<Rightarrow> int \<Rightarrow> error + int option"
  parseUnits :: "string \<Rightarrow> string \<Rightarrow> int"
  ForwardRequest :: "(string \<times> string) list"

subsection \<open>Asynchronous steps with a trace\<close>

type_synonym nonceCache = "address \<rightharpoonup> int"

type_synonym 'a io = "nonceCache \<Rightarrow> (error + 'a) \<times> event list \<times> nonceCache"

definition io_return :: "'a \<Rightarrow> 'a io" where
  "io_return x c = (Inr x, [], c)"

definition io_throw :: "error \<Rightarrow> 'a io" where
  "io_throw e c = (Inl e, [], c)"

definition io_bind :: "'a io \<Rightarrow> ('a \<Rightarrow> 'b io) \<Rightarrow> 'b io" where
  "io_bind m f c =
     (case m c of
        (Inl e, tr, c1) \<Rightarrow> (Inl e, tr, c1)
      | (Inr x, tr, c1) \<Rightarrow> (case f x c1 of (r, tr2, c2) \<Rightarrow> (r, tr @ tr2, c2)))"

text \<open>A call to a collaborator: it is recorded, then resolves or rejects.\<close>

definition await :: "event \<Rightarrow> error + 'a \<Rightarrow> 'a io" where
  "await ev r c = (r, [ev], c)"

text \<open>A local computation that may throw.\<close>

definition io_of :: "error + 'a \<Rightarrow> 'a io" where
  "io_of r c = (r, [], c)"

subsection \<open>The nonce source\<close>

text \<open>
  Modelled from the spec: \<^verbatim>\<open>getAndIncrementNonce\<close> of \<^verbatim>\<open>../common/forwarder\<close> is
  missing from the sources. The spec describes a per-sender nonce tracked against the
  forwarder contract, read with \<^verbatim>\<open>getNonce(forwarderAddress, address)\<close>, then
  "speculatively incremented client-side to avoid reuse within the same process before
  the on-chain nonce advances" (read-then-increment, no on-chain reservation). So the
  model keeps a cache per sender: without an entry the forwarder is asked; the value
  read is returned and its successor is cached.
\<close>

definition getAndIncrementNonce :: "'p lib \<Rightarrow> address \<Rightarrow> address \<Rightarrow> int io" where
  "getAndIncrementNonce l forwarder sender c =
     (case c sender of
        Some n \<Rightarrow> (Inr n, [], c(sender \<mapsto> n + 1))
      | None \<Rightarrow>
          (case forwarder_getNonce l forwarder sender of
             Inl e \<Rightarrow> (Inl e, [GetNonce forwarder sender], c)
           | Inr n \<Rightarrow> (Inr n, [GetNonce forwarder sender], c(sender \<mapsto> n + 1))))"

subsection \<open>The methods of \<^verbatim>\<open>Module\<close>\<close>

definition getSigner :: "module \<Rightarrow> signer option" where
  "getSigner this = signer this"

definition getProvider :: "module \<Rightarrow> provider option" where
  "getProvider this = contract_provider (readOnlyContract this)"

definition getSignerAddress :: "module \<Rightarrow> address io" where
  "getSignerAddress this =
     (case getSigner this of
        None \<Rightarrow> io_throw (InvariantError ''Cannot get signer address without valid signer'')
      | Some sg \<Rightarrow> await GetAddress (getAddress sg))"

definition getChainID :: "module \<Rightarrow> int io" where
  "getChainID this =
     (case getProvider this of
        None \<Rightarrow> io_throw (InvariantError ''getChainID() -- No Provider'')
      | Some pv \<Rightarrow> await GetNetwork (getNetwork pv))"

definition getCallOverrides :: "'p lib \<Rightarrow> module \<Rightarrow> callOverrides io" where
  "getCallOverrides l this =
     io_bind (getChainID this) (\<lambda>chainId.
     let speed = gasSpeed (options this);
         maxGasPrice = maxGasPriceInGwei (options this)
     in io_bind (await (GetGasPrice chainId speed maxGasPrice)
                   (getGasPriceForChain l chainId speed maxGasPrice)) (\<lambda>gasPriceChain.
        (case gasPriceChain of
           None \<Rightarrow> io_return \<lparr>ov_value = None, ov_gasPrice = None\<rparr>
         | Some g \<Rightarrow>
             if g = 0 then io_return \<lparr>ov_value = None, ov_gasPrice = None\<rparr>
             else io_return \<lparr>ov_value = None,
                              ov_gasPrice = Some (parseUnits l (bn_toString g) ''gwei'')\<rparr>)))"

definition sendAndWaitForTransaction ::
  "baseContract \<Rightarrow> string \<Rightarrow> jsval list \<Rightarrow> callOverrides \<Rightarrow> receipt io" where
  "sendAndWaitForTransaction ct fn args callOverrides =
     io_bind (await (ContractCall (contract_address ct) fn args callOverrides)
                (contract_functions ct fn args callOverrides)) (\<lambda>tx.
       (case tx of
          WithWait r \<Rightarrow> await TxWait r
        | NoWait t \<Rightarrow> io_return t))"

text \<open>The gas limit that is forwarded, from the estimate (twice the estimate, replaced by
  500000 when the estimate is below 25000).\<close>

definition forwardedGas :: "int \<Rightarrow> int" where
  "forwardedGas gasEstimate =
     (let gas = gasEstimate * 2 in if gasEstimate < 25000 then 500000 else gas)"

definition isPermitCall :: "baseContract \<Rightarrow> string \<Rightarrow> jsval list \<Rightarrow> bool" where
  "isPermitCall ct fn args \<longleftrightarrow>
     fn = ''approve'' \<and> length args = 2 \<and>
     ''approve(address,uint256)'' \<in> set (interface_functions ct) \<and>
     ''permit(address,address,uint256,uint256,uint8,bytes32,bytes32)''
        \<in> set (interface_functions ct)"

definition isWalletConnectSigner :: "signer \<Rightarrow> bool" where
  "isWalletConnectSigner sg =
     (case signer_provider sg of
        None \<Rightarrow> False
      | Some sp \<Rightarrow>
          (case externalProvider sp of
             None \<Rightarrow> False
           | Some ep \<Rightarrow> isWalletConnect ep = Some True))"

text \<open>Signature-path selection: the permit flow for an ERC-20 \<^verbatim>\<open>approve\<close> on a token that
  has \<^verbatim>\<open>permit\<close>, else typed-data signing of the forward request (through the raw
  JSON-RPC method for a WalletConnect provider). It yields the message and the signature
  to submit.\<close>

definition signRequest ::
  "'p lib \<Rightarrow> signer \<Rightarrow> baseContract \<Rightarrow> string \<Rightarrow> jsval list \<Rightarrow> address \<Rightarrow> domain \<Rightarrow>
     eip712_types \<Rightarrow> forwardRequestMessage \<Rightarrow> (message \<times> string) io" where
  "signRequest l sg ct fn args sender dmn types msg =
     (if isPermitCall ct fn args then
        (let spender = args ! 0; amount = args ! 1 in
         io_bind (await (SignPermit (contract_address ct) sender spender amount)
                    (signERC2612Permit l sg (contract_address ct) sender spender amount))
           (\<lambda>pm. io_return
              (PermitRequestMessage (contract_address ct) pm,
               permit_r pm @ drop 2 (permit_s pm) @ toString16 (permit_v pm))))
      else if isWalletConnectSigner sg then
        (let payload = getPayload l dmn types msg;
             params = [toLowerCase sender, JSON_stringify l payload] in
         (case signer_provider sg of
            None \<Rightarrow> io_throw (Rejected ''signer has no provider'')
          | Some sp \<Rightarrow>
              io_bind (await (RpcSend ''eth_signTypedData'' params)
                         (send sp ''eth_signTypedData'' params))
                (\<lambda>sg_hex. io_return (ForwardRequestMessage msg, sg_hex))))
      else
        io_bind (await (SignTypedData dmn types msg) (signTypedData sg dmn types msg))
          (\<lambda>sg_hex. io_return (ForwardRequestMessage msg, sg_hex)))"

text \<open>Relay dispatch, then waiting for the transaction to be mined.\<close>

definition relayRequest :: "module \<Rightarrow> provider \<Rightarrow> message \<Rightarrow> string \<Rightarrow> receipt io" where
  "relayRequest this pv message signature =
     io_bind (await (RelaySend message signature)
                (transactionRelayerSendFunction (options this) message signature)) (\<lambda>txHash.
     await (WaitForTransaction txHash) (waitForTransaction pv txHash))"

definition sendGaslessTransaction ::
  "'p lib \<Rightarrow> module \<Rightarrow> baseContract \<Rightarrow> string \<Rightarrow> jsval list \<Rightarrow> callOverrides \<Rightarrow> receipt io" where
  "sendGaslessTransaction l this ct fn args callOverrides =
     (case getSigner this of
        None \<Rightarrow>
          io_throw (InvariantError ''Cannot execute gasless transaction without valid signer'')
      | Some sg \<Rightarrow>
     (case getProvider this of
        None \<Rightarrow> io_throw (InvariantError ''no provider to execute transaction'')
      | Some pv \<Rightarrow>
     io_bind (getChainID this) (\<lambda>chainId.
     io_bind (getSignerAddress this) (\<lambda>sender.
     let to = address this;
         val = (case ov_value callOverrides of None \<Rightarrow> 0 | Some v \<Rightarrow> v)
     in
     io_bind (io_of (encodeFunctionData ct fn args)) (\<lambda>data.
     let forwarderAddress = transactionRelayerForwarderAddress (options this) in
     io_bind (await (EstimateGas (contract_address ct) fn args) (estimateGas ct fn args))
       (\<lambda>gasEstimate.
     let gas = forwardedGas gasEstimate in
     io_bind (getAndIncrementNonce l forwarderAddress sender) (\<lambda>nonce.
     let dmn = \<lparr>domain_name = ''GSNv2 Forwarder'', domain_version = ''0.0.1'',
                domain_chainId = chainId, domain_verifyingContract = forwarderAddress\<rparr>;
         types = [(''ForwardRequest'', ForwardRequest l)];
         msg = \<lparr>req_from = sender, req_to = to, req_value = bn_toString val,
                req_gas = bn_toString gas, req_nonce = bn_toString nonce, req_data = data\<rparr>
     in
     io_bind (signRequest l sg ct fn args sender dmn types msg) (\<lambda>(message, signature).
     relayRequest this pv message signature))))))))"

definition sendContractTransaction ::
  "'p lib \<Rightarrow> module \<Rightarrow> baseContract \<Rightarrow> string \<Rightarrow> jsval list \<Rightarrow> callOverrides option
     \<Rightarrow> receipt io" where
  "sendContractTransaction l this ct fn args callOverrides =
     io_bind (case callOverrides of
                None \<Rightarrow> getCallOverrides l this
              | Some ov \<Rightarrow> io_return ov) (\<lambda>ov.
       if transactionRelayerUrl (options this) \<noteq> [] then
         sendGaslessTransaction l this ct fn args ov
       else
         sendAndWaitForTransaction ct fn args ov)"

definition sendTransaction ::
  "'p lib \<Rightarrow> module \<Rightarrow> string \<Rightarrow> jsval list \<Rightarrow> callOverrides option \<Rightarrow> receipt io" where
  "sendTransaction l this fn args callOverrides =
     sendContractTransaction l this (contract this) fn args callOverrides"

text \<open>The events of the signing and relay stages of a gasless call (everything after the
  nonce has been taken).\<close>

fun late :: "event \<Rightarrow> bool" where
  "late (SignPermit a b x y) = True"
| "late (RpcSend m ps) = True"
| "late (SignTypedData d t fr) = True"
| "late (RelaySend m sg) = True"
| "late (WaitForTransaction h) = True"
| "late _ = False"

subsection \<open>An example configuration\<close>

text \<open>A module on chain 137 whose collaborators always resolve; it is used to run the
  transaction paths on concrete inputs.\<close>

definition ex_provider :: provider where
  "ex_provider =
     \<lparr>getNetwork = Inr 137,
      waitForTransaction = (\<lambda>h. Inr \<lparr>status = 1, transactionHash = h\<rparr>)\<rparr>"

definition ex_signer :: "bool \<Rightarrow> signer" where
  "ex_signer wc =
     \<lparr>getAddress = Inr ''0xAbCd'',
      signer_provider =
        Some \<lparr>externalProvider = Some \<lparr>isWalletConnect = (if wc then Some True else None)\<rparr>,
              send = (\<lambda>method params. Inr ''0xrpcsig'')\<rparr>,
      signTypedData = (\<lambda>d t m. Inr ''0xnativesig'')\<rparr>"

definition erc20_functions :: "string list" where
  "erc20_functions =
     [''approve(address,uint256)'',
      ''permit(address,address,uint256,uint256,uint8,bytes32,bytes32)'']"

definition ex_contract :: "address \<Rightarrow> string list \<Rightarrow> int \<Rightarrow> baseContract" where
  "ex_contract a fns estimate =
     \<lparr>contract_address = a,
      contract_provider = Some ex_provider,
      interface_functions = fns,
      encodeFunctionData = (\<lambda>fn args. Inr ''0xdata''),
      estimateGas = (\<lambda>fn args. Inr estimate),
      contract_functions =
        (\<lambda>fn args ov. Inr (WithWait (Inr \<lparr>status = 1, transactionHash = ''0xtx''\<rparr>)))\<rparr>"

definition ex_options :: "string \<Rightarrow> iSDKOptions" where
  "ex_options url =
     \<lparr>gasSpeed = ''fast'',
      maxGasPriceInGwei = 300,
      transactionRelayerUrl = url,
      transactionRelayerForwarderAddress = ''0xF0'',
      transactionRelayerSendFunction = (\<lambda>m sg. Inr ''0xabc'')\<rparr>"

definition ex_module :: "string \<Rightarrow> signer option \<Rightarrow> module" where
  "ex_module url sg =
     \<lparr>address = ''0xModule'',
      options = ex_options url,
      signer = sg,
      contract = ex_contract ''0xModule'' [] 30000,
      readOnlyContract = ex_contract ''0xModule'' [] 30000\<rparr>"

definition ex_lib :: "nat \<Rightarrow> (domain \<times> eip712_types \<times> forwardRequestMessage) lib" where
  "ex_lib v =
     \<lparr>forwarder_getNonce = (\<lambda>forwarder sender. Inr 7),
      signERC2612Permit =
        (\<lambda>sg token owner spender amount.
           Inr \<lparr>permit_owner = owner,
                permit_spender = (case spender of JStr a \<Rightarrow> a | JNum i \<Rightarrow> bn_toString i),
                permit_value = amount,
                permit_nonce = JNum 0, permit_deadline = JNum 99,
                permit_v = v, permit_r = ''0x1111'', permit_s = ''0x2222''\<rparr>),
      getPayload = (\<lambda>d t m. (d, t, m)),
      JSON_stringify = (\<lambda>p. ''{payload}''),
      getGasPriceForChain = (\<lambda>chainId speed maxGasPrice. Inr (Some 30)),
      parseUnits = (\<lambda>str unit. 30000000000),
      ForwardRequest =
        [(''from'', ''address''), (''to'', ''address''), (''value'', ''uint256''),
         (''gas'', ''uint256''), (''nonce'', ''uint256''), (''data'', ''bytes'')]\<rparr>"

lemmas ex_defs = ex_provider_def ex_signer_def erc20_functions_def ex_contract_def
  ex_options_def ex_module_def ex_lib_def

section \<open>Properties\<close>

subsection \<open>Symbolic execution of the relay path\<close>

lemmas io_defs = io_return_def io_throw_def io_bind_def await_def io_of_def

lemma signRequest_cases:
  assumes "signRequest l sg ct fn args sender dmn types msg c = (rs, trs, c1)"
  shows "c1 = c \<and>
         (if isPermitCall ct fn args then
            trs = [SignPermit (contract_address ct) sender (args ! 0) (args ! 1)] \<and>
            rs = (case signERC2612Permit l sg (contract_address ct) sender (args ! 0) (args ! 1) of
                    Inl er \<Rightarrow> Inl er
                  | Inr pm \<Rightarrow> Inr (PermitRequestMessage (contract_address ct) pm,
                       permit_r pm @ drop 2 (permit_s pm) @ toString16 (permit_v pm)))
          else if isWalletConnectSigner sg then
            (\<exists>sp. signer_provider sg = Some sp \<and>
               trs = [RpcSend ''eth_signTypedData''
                        [toLowerCase sender, JSON_stringify l (getPayload l dmn types msg)]] \<and>
               rs = (case send sp ''eth_signTypedData''
                          [toLowerCase sender, JSON_stringify l (getPayload l dmn types msg)] of
                       Inl er \<Rightarrow> Inl er
                     | Inr x \<Rightarrow> Inr (ForwardRequestMessage msg, x)))
          else
            trs = [SignTypedData dmn types msg] \<and>
            rs = (case signTypedData sg dmn types msg of
                    Inl er \<Rightarrow> Inl er
                  | Inr x \<Rightarrow> Inr (ForwardRequestMessage msg, x)))"
  using assms
  by (auto simp: signRequest_def isWalletConnectSigner_def io_defs Let_def
           split: option.splits sum.splits if_splits)

lemma relayRequest_eq:
  "relayRequest this pv m sg c =
     (case transactionRelayerSendFunction (options this) m sg of
        Inl er \<Rightarrow> (Inl er, [RelaySend m sg], c)
      | Inr h \<Rightarrow> (waitForTransaction pv h, [RelaySend m sg, WaitForTransaction h], c))"
  by (simp add: relayRequest_def io_defs split: sum.splits)


lemmas gasless_defs = sendGaslessTransaction_def getSigner_def getProvider_def getChainID_def
  getSignerAddress_def

lemma nonce_cases:
  assumes "getAndIncrementNonce l f s c = (r, trn, c1)"
  shows "(trn = [] \<or> trn = [GetNonce f s]) \<and>
         (case r of Inl er \<Rightarrow> c1 = c | Inr n \<Rightarrow> c1 = c(s \<mapsto> n + 1))"
  using assms
  by (auto simp: getAndIncrementNonce_def split: option.splits sum.splits)

lemma nonce_not_late:
  "getAndIncrementNonce l f s c = (r, trn, c1) \<Longrightarrow> ev \<in> set trn \<Longrightarrow> \<not> late ev"
  by (auto dest!: nonce_cases)

lemma gasless_early:
  assumes "sendGaslessTransaction l this ct fn args ov c = (res, tr, c')"
      and "ev \<in> set tr" and "late ev"
  shows "\<exists>s pv cid sender data e n trn c1.
           signer this = Some s \<and> contract_provider (readOnlyContract this) = Some pv \<and>
           getNetwork pv = Inr cid \<and> getAddress s = Inr sender \<and>
           encodeFunctionData ct fn args = Inr data \<and> estimateGas ct fn args = Inr e \<and>
           getAndIncrementNonce l (transactionRelayerForwarderAddress (options this)) sender c
             = (Inr n, trn, c1)"
  using assms unfolding gasless_defs
  by (auto simp: io_defs Let_def nonce_not_late
           split: option.splits sum.splits prod.splits if_splits)

lemma gasless_prefix:
  assumes "signer this = Some s" and "contract_provider (readOnlyContract this) = Some pv"
      and "getNetwork pv = Inr cid" and "getAddress s = Inr sender"
      and "encodeFunctionData ct fn args = Inr data" and "estimateGas ct fn args = Inr e"
      and "getAndIncrementNonce l (transactionRelayerForwarderAddress (options this)) sender c
             = (Inr n, trn, c1)"
  shows "sendGaslessTransaction l this ct fn args ov c =
           (case io_bind
                   (signRequest l s ct fn args sender
                      \<lparr>domain_name = ''GSNv2 Forwarder'', domain_version = ''0.0.1'',
                        domain_chainId = cid,
                        domain_verifyingContract = transactionRelayerForwarderAddress (options this)\<rparr>
                      [(''ForwardRequest'', ForwardRequest l)]
                      \<lparr>req_from = sender, req_to = address this,
                        req_value = bn_toString (case ov_value ov of None \<Rightarrow> 0 | Some v \<Rightarrow> v),
                        req_gas = bn_toString (forwardedGas e), req_nonce = bn_toString n,
                        req_data = data\<rparr>)
                   (\<lambda>(message, signature). relayRequest this pv message signature) c1 of
              (r, tr2, c2) \<Rightarrow>
                (r, GetNetwork # GetAddress # EstimateGas (contract_address ct) fn args # trn @ tr2, c2))"
  using assms unfolding gasless_defs
  by (simp add: io_defs Let_def split: prod.splits)


lemma tail_cases:
  assumes "io_bind (signRequest l s ct fn args sender dmn types msg)
             (\<lambda>(message, signature). relayRequest this pv message signature) c1 = (r, tr2, c2)"
  shows "c2 = c1 \<and>
         (\<exists>rs trs. signRequest l s ct fn args sender dmn types msg c1 = (rs, trs, c1) \<and>
            (case rs of
               Inl er \<Rightarrow> r = Inl er \<and> tr2 = trs
             | Inr (m, sg) \<Rightarrow>
                 (case transactionRelayerSendFunction (options this) m sg of
                    Inl er \<Rightarrow> r = Inl er \<and> tr2 = trs @ [RelaySend m sg]
                  | Inr h \<Rightarrow> r = waitForTransaction pv h \<and>
                             tr2 = trs @ [RelaySend m sg, WaitForTransaction h])))"
proof -
  obtain rs trs c3 where sr: "signRequest l s ct fn args sender dmn types msg c1 = (rs, trs, c3)"
    by (metis prod_cases3)
  from signRequest_cases [OF sr] have c3: "c3 = c1" by simp
  from assms sr c3 show ?thesis
    by (auto simp: io_bind_def relayRequest_eq split: sum.splits prod.splits)
qed

lemma gasless_late:
  assumes run: "sendGaslessTransaction l this ct fn args ov c = (res, tr, c')"
      and ev: "ev \<in> set tr" "late ev"
  shows "\<exists>s pv cid sender data e n trn dmn tys msg rs trs.
           signer this = Some s \<and> contract_provider (readOnlyContract this) = Some pv \<and>
           getNetwork pv = Inr cid \<and> getAddress s = Inr sender \<and>
           encodeFunctionData ct fn args = Inr data \<and> estimateGas ct fn args = Inr e \<and>
           getAndIncrementNonce l (transactionRelayerForwarderAddress (options this)) sender c
             = (Inr n, trn, c') \<and>
           c' = c(sender \<mapsto> n + 1) \<and>
           dmn = \<lparr>domain_name = ''GSNv2 Forwarder'', domain_version = ''0.0.1'',
                   domain_chainId = cid,
                   domain_verifyingContract = transactionRelayerForwarderAddress (options this)\<rparr> \<and>
           tys = [(''ForwardRequest'', ForwardRequest l)] \<and>
           msg = \<lparr>req_from = sender, req_to = address this,
                   req_value = bn_toString (case ov_value ov of None \<Rightarrow> 0 | Some v \<Rightarrow> v),
                   req_gas = bn_toString (forwardedGas e), req_nonce = bn_toString n,
                   req_data = data\<rparr> \<and>
           signRequest l s ct fn args sender dmn tys msg c' = (rs, trs, c') \<and>
           (case rs of
              Inl er \<Rightarrow> res = Inl er \<and>
                 tr = GetNetwork # GetAddress # EstimateGas (contract_address ct) fn args # trn @ trs
            | Inr (m, sg) \<Rightarrow>
                (case transactionRelayerSendFunction (options this) m sg of
                   Inl er \<Rightarrow> res = Inl er \<and>
                     tr = GetNetwork # GetAddress # EstimateGas (contract_address ct) fn args #
                            trn @ trs @ [RelaySend m sg]
                 | Inr h \<Rightarrow> res = waitForTransaction pv h \<and>
                     tr = GetNetwork # GetAddress # EstimateGas (contract_address ct) fn args #
                            trn @ trs @ [RelaySend m sg, WaitForTransaction h]))"
proof -
  from gasless_early [OF run ev] obtain s pv cid sender data e n trn c1 where
    p: "signer this = Some s" "contract_provider (readOnlyContract this) = Some pv"
       "getNetwork pv = Inr cid" "getAddress s = Inr sender"
       "encodeFunctionData ct fn args = Inr data" "estimateGas ct fn args = Inr e"
    and nn: "getAndIncrementNonce l (transactionRelayerForwarderAddress (options this)) sender c
             = (Inr n, trn, c1)"
    by blast
  let ?dmn = "\<lparr>domain_name = ''GSNv2 Forwarder'', domain_version = ''0.0.1'',
                domain_chainId = cid,
                domain_verifyingContract = transactionRelayerForwarderAddress (options this)\<rparr>"
  let ?tys = "[(''ForwardRequest'', ForwardRequest l)]"
  let ?msg = "\<lparr>req_from = sender, req_to = address this,
                req_value = bn_toString (case ov_value ov of None \<Rightarrow> 0 | Some v \<Rightarrow> v),
                req_gas = bn_toString (forwardedGas e), req_nonce = bn_toString n,
                req_data = data\<rparr>"
  let ?T = "io_bind (signRequest l s ct fn args sender ?dmn ?tys ?msg)
              (\<lambda>(message, signature). relayRequest this pv message signature)"
  obtain r tr2 c2 where t: "?T c1 = (r, tr2, c2)"
    by (metis prod_cases3)
  from gasless_prefix [OF p nn, of ov] run t
  have eqs: "res = r" "c' = c2"
       "tr = GetNetwork # GetAddress # EstimateGas (contract_address ct) fn args # trn @ tr2"
    by simp_all
  from tail_cases [OF t] have c2: "c2 = c1" by simp
  from nonce_cases [OF nn] have c1: "c1 = c(sender \<mapsto> n + 1)" by simp
  from tail_cases [OF t] obtain rs trs where
    sr: "signRequest l s ct fn args sender ?dmn ?tys ?msg c1 = (rs, trs, c1)"
    and cs: "case rs of
               Inl er \<Rightarrow> r = Inl er \<and> tr2 = trs
             | Inr (m, sg) \<Rightarrow>
                 (case transactionRelayerSendFunction (options this) m sg of
                    Inl er \<Rightarrow> r = Inl er \<and> tr2 = trs @ [RelaySend m sg]
                  | Inr h \<Rightarrow> r = waitForTransaction pv h \<and>
                             tr2 = trs @ [RelaySend m sg, WaitForTransaction h])"
    by blast
  have cc: "c' = c1" using eqs c2 by simp
  show ?thesis
    apply (rule exI [of _ s], rule exI [of _ pv], rule exI [of _ cid], rule exI [of _ sender])
    apply (rule exI [of _ data], rule exI [of _ e], rule exI [of _ n], rule exI [of _ trn])
    apply (rule exI [of _ ?dmn], rule exI [of _ ?tys], rule exI [of _ ?msg])
    apply (rule exI [of _ rs], rule exI [of _ trs])
    using p nn sr cs eqs(1,3) cc c1
    apply (simp split: sum.splits prod.splits)
    done
qed

lemma sign_event:
  assumes "signRequest l s ct fn args sender dmn tys msg c = (rs, trs, c1)"
  shows "\<exists>ev. trs = [ev] \<and> late ev \<and> (\<forall>m sg. ev \<noteq> RelaySend m sg) \<and>
              (\<forall>h. ev \<noteq> WaitForTransaction h)"
  using signRequest_cases [OF assms] by (auto split: if_splits)

lemma gasless_relay:
  assumes run: "sendGaslessTransaction l this ct fn args ov c = (res, tr, c')"
      and a: "RelaySend m sg \<in> set tr"
  shows "\<exists>s pv cid sender data e n trn dmn tys msg ev.
           signer this = Some s \<and> contract_provider (readOnlyContract this) = Some pv \<and>
           getNetwork pv = Inr cid \<and> getAddress s = Inr sender \<and>
           encodeFunctionData ct fn args = Inr data \<and> estimateGas ct fn args = Inr e \<and>
           getAndIncrementNonce l (transactionRelayerForwarderAddress (options this)) sender c
             = (Inr n, trn, c') \<and>
           c' = c(sender \<mapsto> n + 1) \<and>
           dmn = \<lparr>domain_name = ''GSNv2 Forwarder'', domain_version = ''0.0.1'',
                   domain_chainId = cid,
                   domain_verifyingContract = transactionRelayerForwarderAddress (options this)\<rparr> \<and>
           tys = [(''ForwardRequest'', ForwardRequest l)] \<and>
           msg = \<lparr>req_from = sender, req_to = address this,
                   req_value = bn_toString (case ov_value ov of None \<Rightarrow> 0 | Some v \<Rightarrow> v),
                   req_gas = bn_toString (forwardedGas e), req_nonce = bn_toString n,
                   req_data = data\<rparr> \<and>
           signRequest l s ct fn args sender dmn tys msg c' = (Inr (m, sg), [ev], c') \<and>
           res = (case transactionRelayerSendFunction (options this) m sg of
                    Inl er \<Rightarrow> Inl er | Inr h \<Rightarrow> waitForTransaction pv h) \<and>
           tr = GetNetwork # GetAddress # EstimateGas (contract_address ct) fn args # trn @
                  ev # RelaySend m sg #
                  (case transactionRelayerSendFunction (options this) m sg of
                     Inl er \<Rightarrow> [] | Inr h \<Rightarrow> [WaitForTransaction h])"
proof -
  have l: "late (RelaySend m sg)" by simp
  from gasless_late [OF run a l] obtain s pv cid sender data e n trn dmn tys msg rs trs where
    p: "signer this = Some s" "contract_provider (readOnlyContract this) = Some pv"
       "getNetwork pv = Inr cid" "getAddress s = Inr sender"
       "encodeFunctionData ct fn args = Inr data" "estimateGas ct fn args = Inr e"
       "getAndIncrementNonce l (transactionRelayerForwarderAddress (options this)) sender c
             = (Inr n, trn, c')"
       "c' = c(sender \<mapsto> n + 1)"
       "dmn = \<lparr>domain_name = ''GSNv2 Forwarder'', domain_version = ''0.0.1'',
                   domain_chainId = cid,
                   domain_verifyingContract = transactionRelayerForwarderAddress (options this)\<rparr>"
       "tys = [(''ForwardRequest'', ForwardRequest l)]"
       "msg = \<lparr>req_from = sender, req_to = address this,
                   req_value = bn_toString (case ov_value ov of None \<Rightarrow> 0 | Some v \<Rightarrow> v),
                   req_gas = bn_toString (forwardedGas e), req_nonce = bn_toString n,
                   req_data = data\<rparr>"
    and sr: "signRequest l s ct fn args sender dmn tys msg c' = (rs, trs, c')"
    and cs: "case rs of
              Inl er \<Rightarrow> res = Inl er \<and>
                 tr = GetNetwork # GetAddress # EstimateGas (contract_address ct) fn args # trn @ trs
            | Inr (m, sg) \<Rightarrow>
                (case transactionRelayerSendFunction (options this) m sg of
                   Inl er \<Rightarrow> res = Inl er \<and>
                     tr = GetNetwork # GetAddress # EstimateGas (contract_address ct) fn args #
                            trn @ trs @ [RelaySend m sg]
                 | Inr h \<Rightarrow> res = waitForTransaction pv h \<and>
                     tr = GetNetwork # GetAddress # EstimateGas (contract_address ct) fn args #
                            trn @ trs @ [RelaySend m sg, WaitForTransaction h])"
    by blast
  from sign_event [OF sr] obtain ev where ev: "trs = [ev]" "\<forall>m sg. ev \<noteq> RelaySend m sg"
    by blast
  from nonce_cases [OF p(7)] have trn: "trn = [] \<or> trn = [GetNonce (transactionRelayerForwarderAddress (options this)) sender]"
    by simp
  have rs: "rs = Inr (m, sg)"
  proof (cases rs)
    case (Inl er)
    with a cs ev trn show ?thesis by auto
  next
    case (Inr q)
    obtain m0 sg0 where q: "q = (m0, sg0)" by (cases q)
    show ?thesis using a cs ev trn Inr q
      by (cases "transactionRelayerSendFunction (options this) m0 sg0") auto
  qed
  show ?thesis
    apply (rule exI [of _ s], rule exI [of _ pv], rule exI [of _ cid], rule exI [of _ sender])
    apply (rule exI [of _ data], rule exI [of _ e], rule exI [of _ n], rule exI [of _ trn])
    apply (rule exI [of _ dmn], rule exI [of _ tys], rule exI [of _ msg], rule exI [of _ ev])
    using p sr cs ev(1) rs
    apply (simp split: sum.splits)
    done
qed


subsection \<open>Evaluation on concrete inputs\<close>

lemmas run_defs = sendContractTransaction_def getCallOverrides_def sendAndWaitForTransaction_def
  sendGaslessTransaction_def getSigner_def getProvider_def getChainID_def
  getSignerAddress_def getAndIncrementNonce_def signRequest_def relayRequest_def
  isPermitCall_def isWalletConnectSigner_def forwardedGas_def bn_toString_def toLowerCase_def
  io_defs ex_defs Let_def dec_digits.simps toString16.simps

subsection \<open>No signer\<close>

text \<open>
  C6. A gasless call on a module without a signer fails with the invariant error
  "Cannot execute gasless transaction without valid signer" and an empty trace: no gas
  estimation, no nonce read, no relay dispatch, and the nonce cache is unchanged. The same
  holds through \<^verbatim>\<open>sendContractTransaction\<close> when a relayer is configured and the caller
  passes overrides; when the caller passes none, the only calls made before the failure
  are the chain-id and gas-price lookups of \<^verbatim>\<open>getCallOverrides\<close>.
\<close>

theorem missing_signer_invariant:
  assumes "signer this = None"
  shows "sendGaslessTransaction l this ct fn args ov c =
           (Inl (InvariantError ''Cannot execute gasless transaction without valid signer''), [], c) \<and>
         (transactionRelayerUrl (options this) \<noteq> [] \<longrightarrow>
            sendContractTransaction l this ct fn args (Some ov) c =
              (Inl (InvariantError ''Cannot execute gasless transaction without valid signer''), [], c)) \<and>
         (\<forall>res tr c'. transactionRelayerUrl (options this) \<noteq> [] \<and>
            sendContractTransaction l this ct fn args None c = (res, tr, c') \<longrightarrow>
              (\<exists>er. res = Inl er) \<and> c' = c \<and>
              (\<forall>ev \<in> set tr. ev = GetNetwork \<or> (\<exists>a b d. ev = GetGasPrice a b d)))"
proof -
  have g: "\<And>ov c. sendGaslessTransaction l this ct fn args ov c =
           (Inl (InvariantError ''Cannot execute gasless transaction without valid signer''), [], c)"
    using assms by (simp add: sendGaslessTransaction_def getSigner_def io_throw_def)
  show ?thesis
    by (auto simp: g sendContractTransaction_def getCallOverrides_def getChainID_def io_defs Let_def
             split: option.splits sum.splits prod.splits if_splits)
qed

theorem missing_signer_invariant_witness:
  "signer (ex_module ''https://relay'' None) = None \<and>
   sendGaslessTransaction (ex_lib 27) (ex_module ''https://relay'' None)
      (ex_contract ''0xModule'' [] 30000) ''grantRole'' [JStr ''0xrole'', JStr ''0xwho'']
      \<lparr>ov_value = None, ov_gasPrice = None\<rparr> Map.empty =
     (Inl (InvariantError ''Cannot execute gasless transaction without valid signer''), [], Map.empty)"
  using missing_signer_invariant [of "ex_module ''https://relay'' None" "ex_lib 27"
      "ex_contract ''0xModule'' [] 30000" "''grantRole''" "[JStr ''0xrole'', JStr ''0xwho'']"
      "\<lparr>ov_value = None, ov_gasPrice = None\<rparr>" Map.empty]
  by (simp add: ex_module_def)

subsection \<open>Helper facts about the signing stage\<close>

lemma signRequest_forward:
  assumes "signRequest l s ct fn args sender dmn tys msg c = (Inr (ForwardRequestMessage fr, sg), trs, c1)"
  shows "fr = msg \<and> \<not> isPermitCall ct fn args \<and>
         (if isWalletConnectSigner s then
            (\<exists>sp. signer_provider s = Some sp \<and>
               send sp ''eth_signTypedData''
                 [toLowerCase sender, JSON_stringify l (getPayload l dmn tys msg)] = Inr sg \<and>
               trs = [RpcSend ''eth_signTypedData''
                        [toLowerCase sender, JSON_stringify l (getPayload l dmn tys msg)]])
          else signTypedData s dmn tys msg = Inr sg \<and> trs = [SignTypedData dmn tys msg])"
  using assms
  by (auto simp: signRequest_def isWalletConnectSigner_def io_defs Let_def
           split: option.splits sum.splits if_splits)

lemma signRequest_permit:
  assumes "signRequest l s ct fn args sender dmn tys msg c = (Inr (PermitRequestMessage a pm, sg), trs, c1)"
  shows "isPermitCall ct fn args \<and> a = contract_address ct \<and>
         signERC2612Permit l s (contract_address ct) sender (args ! 0) (args ! 1) = Inr pm \<and>
         sg = permit_r pm @ drop 2 (permit_s pm) @ toString16 (permit_v pm) \<and>
         trs = [SignPermit (contract_address ct) sender (args ! 0) (args ! 1)]"
  using assms
  by (auto simp: signRequest_def isWalletConnectSigner_def io_defs Let_def
           split: option.splits sum.splits if_splits)

lemma signRequest_kind:
  assumes "signRequest l s ct fn args sender dmn tys msg c = (Inr (m, sg), trs, c1)"
  shows "if isPermitCall ct fn args then (\<exists>pm. m = PermitRequestMessage (contract_address ct) pm)
         else m = ForwardRequestMessage msg"
  using assms
  by (auto simp: signRequest_def isWalletConnectSigner_def io_defs Let_def
           split: option.splits sum.splits if_splits)

lemma gasless_sign:
  assumes run: "sendGaslessTransaction l this ct fn args ov c = (res, tr, c')"
      and a: "ev \<in> set tr" "late ev" "\<forall>m sg. ev \<noteq> RelaySend m sg"
             "\<forall>h. ev \<noteq> WaitForTransaction h"
  shows "\<exists>s pv cid sender data e n trn dmn tys msg rs.
           signer this = Some s \<and> contract_provider (readOnlyContract this) = Some pv \<and>
           getNetwork pv = Inr cid \<and> getAddress s = Inr sender \<and>
           encodeFunctionData ct fn args = Inr data \<and> estimateGas ct fn args = Inr e \<and>
           getAndIncrementNonce l (transactionRelayerForwarderAddress (options this)) sender c
             = (Inr n, trn, c') \<and>
           c' = c(sender \<mapsto> n + 1) \<and>
           dmn = \<lparr>domain_name = ''GSNv2 Forwarder'', domain_version = ''0.0.1'',
                   domain_chainId = cid,
                   domain_verifyingContract = transactionRelayerForwarderAddress (options this)\<rparr> \<and>
           tys = [(''ForwardRequest'', ForwardRequest l)] \<and>
           msg = \<lparr>req_from = sender, req_to = address this,
                   req_value = bn_toString (case ov_value ov of None \<Rightarrow> 0 | Some v \<Rightarrow> v),
                   req_gas = bn_toString (forwardedGas e), req_nonce = bn_toString n,
                   req_data = data\<rparr> \<and>
           signRequest l s ct fn args sender dmn tys msg c' = (rs, [ev], c')"
proof -
  from gasless_late [OF run a(1,2)] obtain s pv cid sender data e n trn dmn tys msg rs trs where
    p: "signer this = Some s" "contract_provider (readOnlyContract this) = Some pv"
       "getNetwork pv = Inr cid" "getAddress s = Inr sender"
       "encodeFunctionData ct fn args = Inr data" "estimateGas ct fn args = Inr e"
       "getAndIncrementNonce l (transactionRelayerForwarderAddress (options this)) sender c
             = (Inr n, trn, c')"
       "c' = c(sender \<mapsto> n + 1)"
       "dmn = \<lparr>domain_name = ''GSNv2 Forwarder'', domain_version = ''0.0.1'',
                   domain_chainId = cid,
                   domain_verifyingContract = transactionRelayerForwarderAddress (options this)\<rparr>"
       "tys = [(''ForwardRequest'', ForwardRequest l)]"
       "msg = \<lparr>req_from = sender, req_to = address this,
                   req_value = bn_toString (case ov_value ov of None \<Rightarrow> 0 | Some v \<Rightarrow> v),
                   req_gas = bn_toString (forwardedGas e), req_nonce = bn_toString n,
                   req_data = data\<rparr>"
    and sr: "signRequest l s ct fn args sender dmn tys msg c' = (rs, trs, c')"
    and cs: "case rs of
              Inl er \<Rightarrow> res = Inl er \<and>
                 tr = GetNetwork # GetAddress # EstimateGas (contract_address ct) fn args # trn @ trs
            | Inr (m, sg) \<Rightarrow>
                (case transactionRelayerSendFunction (options this) m sg of
                   Inl er \<Rightarrow> res = Inl er \<and>
                     tr = GetNetwork # GetAddress # EstimateGas (contract_address ct) fn args #
                            trn @ trs @ [RelaySend m sg]
                 | Inr h \<Rightarrow> res = waitForTransaction pv h \<and>
                     tr = GetNetwork # GetAddress # EstimateGas (contract_address ct) fn args #
                            trn @ trs @ [RelaySend m sg, WaitForTransaction h])"
    by blast
  from sign_event [OF sr] obtain ev0 where ev0: "trs = [ev0]" by blast
  from nonce_cases [OF p(7)]
  have trn: "trn = [] \<or> trn = [GetNonce (transactionRelayerForwarderAddress (options this)) sender]"
    by simp
  have "ev0 = ev"
  proof (cases rs)
    case (Inl er)
    with a cs ev0 trn show ?thesis by auto
  next
    case (Inr q)
    obtain m0 sg0 where q: "q = (m0, sg0)" by (cases q)
    show ?thesis using a cs ev0 trn Inr q
      by (cases "transactionRelayerSendFunction (options this) m0 sg0") auto
  qed
  with ev0 have trs: "trs = [ev]" by simp
  show ?thesis
    apply (rule exI [of _ s], rule exI [of _ pv], rule exI [of _ cid], rule exI [of _ sender])
    apply (rule exI [of _ data], rule exI [of _ e], rule exI [of _ n], rule exI [of _ trn])
    apply (rule exI [of _ dmn], rule exI [of _ tys], rule exI [of _ msg], rule exI [of _ rs])
    using p sr trs
    apply simp
    done
qed

lemma gasless_success:
  assumes "sendGaslessTransaction l this ct fn args ov c = (Inr r, tr, c')"
  shows "\<exists>m sg. RelaySend m sg \<in> set tr"
  using assms unfolding gasless_defs
  by (auto simp: io_defs Let_def relayRequest_eq
           split: option.splits sum.splits prod.splits if_splits) blast+

subsection \<open>Gas limit\<close>

text \<open>
  C2. Whenever a gasless call submits a forward request, its \<^verbatim>\<open>gas\<close> field is the decimal
  rendering of 500000 if the estimate \<open>e\<close> of the contract binding is below 25000, and of
  \<open>2 * e\<close> otherwise; an estimate of 24999 gives 500000 and an estimate of 25000 gives 50000.
\<close>

theorem gas_limit_policy:
  assumes run: "sendGaslessTransaction l this ct fn args ov c = (res, tr, c')"
      and est: "estimateGas ct fn args = Inr e"
      and rel: "RelaySend (ForwardRequestMessage fr) sg \<in> set tr"
  shows "req_gas fr = bn_toString (if e < 25000 then 500000 else 2 * e) \<and>
         forwardedGas e = (if e < 25000 then 500000 else 2 * e) \<and>
         forwardedGas 24999 = 500000 \<and> forwardedGas 25000 = 50000"
proof -
  from gasless_relay [OF run rel] obtain s sender dmn tys msg ev e' n data where
    e': "estimateGas ct fn args = Inr e'"
    and msg: "msg = \<lparr>req_from = sender, req_to = address this,
                   req_value = bn_toString (case ov_value ov of None \<Rightarrow> 0 | Some v \<Rightarrow> v),
                   req_gas = bn_toString (forwardedGas e'), req_nonce = bn_toString n,
                   req_data = data\<rparr>"
    and sr: "signRequest l s ct fn args sender dmn tys msg c' = (Inr (ForwardRequestMessage fr, sg), [ev], c')"
    by blast
  from signRequest_forward [OF sr] have "fr = msg" by simp
  with msg e' est have "req_gas fr = bn_toString (forwardedGas e)" by simp
  then show ?thesis by (simp add: forwardedGas_def mult.commute)
qed

theorem gas_limit_policy_witness:
  "estimateGas (ex_contract ''0xModule'' [] 25000) ''grantRole'' [JStr ''0xrole'', JStr ''0xwho'']
     = Inr 25000 \<and>
   RelaySend (ForwardRequestMessage
        \<lparr>req_from = ''0xAbCd'', req_to = ''0xModule'', req_value = ''0'',
          req_gas = ''50000'', req_nonce = ''7'', req_data = ''0xdata''\<rparr>) ''0xnativesig''
     \<in> set (fst (snd (sendGaslessTransaction (ex_lib 27)
            (ex_module ''https://relay'' (Some (ex_signer False)))
            (ex_contract ''0xModule'' [] 25000) ''grantRole'' [JStr ''0xrole'', JStr ''0xwho'']
            \<lparr>ov_value = None, ov_gasPrice = None\<rparr> Map.empty))) \<and>
   ''50000'' = bn_toString (if (25000::int) < 25000 then 500000 else 2 * 25000)"
proof -
  let ?run = "sendGaslessTransaction (ex_lib 27)
            (ex_module ''https://relay'' (Some (ex_signer False)))
            (ex_contract ''0xModule'' [] 25000) ''grantRole'' [JStr ''0xrole'', JStr ''0xwho'']
            \<lparr>ov_value = None, ov_gasPrice = None\<rparr> Map.empty"
  let ?fr = "\<lparr>req_from = ''0xAbCd'', req_to = ''0xModule'', req_value = ''0'',
          req_gas = ''50000'', req_nonce = ''7'', req_data = ''0xdata''\<rparr>"
  have run: "?run = (fst ?run, fst (snd ?run), snd (snd ?run))" by simp
  have est: "estimateGas (ex_contract ''0xModule'' [] 25000) ''grantRole''
               [JStr ''0xrole'', JStr ''0xwho''] = Inr 25000"
    by (simp add: ex_defs)
  have rel: "RelaySend (ForwardRequestMessage ?fr) ''0xnativesig'' \<in> set (fst (snd ?run))"
    by (simp add: run_defs)
  from gas_limit_policy [OF run est rel] est rel show ?thesis by simp
qed

subsection \<open>Relay dispatch and receipt\<close>

text \<open>
  C8. In a gasless call the transaction hash that the relay-dispatch function returns is
  the argument of the provider's \<^verbatim>\<open>waitForTransaction\<close>, no other hash is waited for, and
  the call returns exactly what \<^verbatim>\<open>waitForTransaction\<close> resolves to; conversely a call that
  returns a receipt has dispatched a request whose hash resolved to that receipt.
\<close>

theorem relay_hash_receipt:
  assumes run: "sendGaslessTransaction l this ct fn args ov c = (res, tr, c')"
      and pv: "contract_provider (readOnlyContract this) = Some pv"
  shows "(\<forall>m sg h. RelaySend m sg \<in> set tr \<and>
             transactionRelayerSendFunction (options this) m sg = Inr h \<longrightarrow>
             WaitForTransaction h \<in> set tr \<and>
             (\<forall>h'. WaitForTransaction h' \<in> set tr \<longrightarrow> h' = h) \<and>
             res = waitForTransaction pv h) \<and>
         (\<forall>r. res = Inr r \<longrightarrow>
             (\<exists>m sg h. RelaySend m sg \<in> set tr \<and>
                transactionRelayerSendFunction (options this) m sg = Inr h \<and>
                waitForTransaction pv h = Inr r))"
proof -
  have a: "WaitForTransaction h \<in> set tr \<and>
           (\<forall>h'. WaitForTransaction h' \<in> set tr \<longrightarrow> h' = h) \<and>
           res = waitForTransaction pv h"
    if rel: "RelaySend m sg \<in> set tr"
    and h: "transactionRelayerSendFunction (options this) m sg = Inr h" for m sg h
  proof -
    from gasless_relay [OF run rel] obtain s pv' sender dmn tys msg ev n trn where
      pv': "contract_provider (readOnlyContract this) = Some pv'"
      and nn: "getAndIncrementNonce l (transactionRelayerForwarderAddress (options this)) sender c
             = (Inr n, trn, c')"
      and sr: "signRequest l s ct fn args sender dmn tys msg c' = (Inr (m, sg), [ev], c')"
      and res: "res = (case transactionRelayerSendFunction (options this) m sg of
                    Inl er \<Rightarrow> Inl er | Inr h \<Rightarrow> waitForTransaction pv' h)"
      and tr: "tr = GetNetwork # GetAddress # EstimateGas (contract_address ct) fn args # trn @
                  ev # RelaySend m sg #
                  (case transactionRelayerSendFunction (options this) m sg of
                     Inl er \<Rightarrow> [] | Inr h \<Rightarrow> [WaitForTransaction h])"
      by blast
    from sign_event [OF sr] have ev: "\<forall>h. ev \<noteq> WaitForTransaction h" by simp
    from nonce_cases [OF nn]
    have trn: "trn = [] \<or> trn = [GetNonce (transactionRelayerForwarderAddress (options this)) sender]"
      by simp
    from pv pv' res tr h ev trn show ?thesis by auto
  qed
  have b: "\<exists>m sg h. RelaySend m sg \<in> set tr \<and>
                transactionRelayerSendFunction (options this) m sg = Inr h \<and>
                waitForTransaction pv h = Inr r" if r: "res = Inr r" for r
  proof -
    from gasless_success run r obtain m sg where rel: "RelaySend m sg \<in> set tr" by blast
    from gasless_relay [OF run rel] pv
    have res: "res = (case transactionRelayerSendFunction (options this) m sg of
                    Inl er \<Rightarrow> Inl er | Inr h \<Rightarrow> waitForTransaction pv h)"
      by auto
    with r obtain h where "transactionRelayerSendFunction (options this) m sg = Inr h"
      by (cases "transactionRelayerSendFunction (options this) m sg") auto
    with res r rel show ?thesis by auto
  qed
  from a b show ?thesis by blast
qed

theorem relay_hash_receipt_witness:
  "contract_provider (readOnlyContract (ex_module ''https://relay'' (Some (ex_signer False))))
     = Some ex_provider \<and>
   fst (sendGaslessTransaction (ex_lib 27)
          (ex_module ''https://relay'' (Some (ex_signer False)))
          (ex_contract ''0xModule'' [] 30000) ''grantRole'' [JStr ''0xrole'', JStr ''0xwho'']
          \<lparr>ov_value = None, ov_gasPrice = None\<rparr> Map.empty)
     = Inr \<lparr>status = 1, transactionHash = ''0xabc''\<rparr> \<and>
   waitForTransaction ex_provider ''0xabc'' = Inr \<lparr>status = 1, transactionHash = ''0xabc''\<rparr>"
proof -
  let ?md = "ex_module ''https://relay'' (Some (ex_signer False))"
  let ?run = "sendGaslessTransaction (ex_lib 27) ?md
          (ex_contract ''0xModule'' [] 30000) ''grantRole'' [JStr ''0xrole'', JStr ''0xwho'']
          \<lparr>ov_value = None, ov_gasPrice = None\<rparr> Map.empty"
  let ?m = "ForwardRequestMessage
        \<lparr>req_from = ''0xAbCd'', req_to = ''0xModule'', req_value = ''0'',
          req_gas = ''60000'', req_nonce = ''7'', req_data = ''0xdata''\<rparr>"
  have run: "?run = (fst ?run, fst (snd ?run), snd (snd ?run))" by simp
  have pv: "contract_provider (readOnlyContract ?md) = Some ex_provider"
    by (simp add: ex_defs)
  have rel: "RelaySend ?m ''0xnativesig'' \<in> set (fst (snd ?run))"
    by (simp add: run_defs)
  have h: "transactionRelayerSendFunction (options ?md) ?m ''0xnativesig'' = Inr ''0xabc''"
    by (simp add: ex_defs)
  from relay_hash_receipt [OF run pv] rel h
  have "fst ?run = waitForTransaction ex_provider ''0xabc''" by blast
  with pv show ?thesis by (simp add: ex_provider_def)
qed

subsection \<open>Signing domain\<close>

text \<open>
  C9. Every typed-data signature of a gasless call is requested for the domain with name
  "GSNv2 Forwarder", version "0.0.1", the chain id that the provider reports and the
  configured forwarder address as verifying contract: this is the domain handed to the
  signer's native entry point, and the domain inside the payload sent over JSON-RPC.
\<close>

theorem signing_domain:
  assumes run: "sendGaslessTransaction l this ct fn args ov c = (res, tr, c')"
      and pv: "contract_provider (readOnlyContract this) = Some pv"
      and net: "getNetwork pv = Inr cid"
  shows "(\<forall>d t fr. SignTypedData d t fr \<in> set tr \<longrightarrow>
            d = \<lparr>domain_name = ''GSNv2 Forwarder'', domain_version = ''0.0.1'',
                 domain_chainId = cid,
                 domain_verifyingContract = transactionRelayerForwarderAddress (options this)\<rparr>) \<and>
         (\<forall>meth ps. RpcSend meth ps \<in> set tr \<longrightarrow>
            (\<exists>sender fr. ps = [toLowerCase sender,
               JSON_stringify l (getPayload l
                 \<lparr>domain_name = ''GSNv2 Forwarder'', domain_version = ''0.0.1'',
                   domain_chainId = cid,
                   domain_verifyingContract = transactionRelayerForwarderAddress (options this)\<rparr>
                 [(''ForwardRequest'', ForwardRequest l)] fr)]))"
proof -
  let ?d = "\<lparr>domain_name = ''GSNv2 Forwarder'', domain_version = ''0.0.1'',
                 domain_chainId = cid,
                 domain_verifyingContract = transactionRelayerForwarderAddress (options this)\<rparr>"
  have a: "\<exists>s sender msg rs.
             signRequest l s ct fn args sender ?d [(''ForwardRequest'', ForwardRequest l)] msg c'
               = (rs, [ev], c')"
    if ev: "ev \<in> set tr" "late ev" "\<forall>m sg. ev \<noteq> RelaySend m sg"
           "\<forall>h. ev \<noteq> WaitForTransaction h" for ev
  proof -
    from gasless_sign [OF run ev] obtain s pv' cid' sender dmn tys msg rs where
      p: "contract_provider (readOnlyContract this) = Some pv'" "getNetwork pv' = Inr cid'"
         "dmn = \<lparr>domain_name = ''GSNv2 Forwarder'', domain_version = ''0.0.1'',
                   domain_chainId = cid',
                   domain_verifyingContract = transactionRelayerForwarderAddress (options this)\<rparr>"
         "tys = [(''ForwardRequest'', ForwardRequest l)]"
      and sr: "signRequest l s ct fn args sender dmn tys msg c' = (rs, [ev], c')"
      by blast
    from p pv net have "cid' = cid" by simp
    with p sr have "signRequest l s ct fn args sender ?d [(''ForwardRequest'', ForwardRequest l)] msg c'
               = (rs, [ev], c')" by simp
    then show ?thesis by blast
  qed
  have b: "d = ?d" if ev: "SignTypedData d t fr \<in> set tr" for d t fr
  proof -
    have "\<exists>s sender msg rs.
             signRequest l s ct fn args sender ?d [(''ForwardRequest'', ForwardRequest l)] msg c'
               = (rs, [SignTypedData d t fr], c')"
      by (rule a [OF ev]) simp_all
    then obtain s sender msg rs where
      sr: "signRequest l s ct fn args sender ?d [(''ForwardRequest'', ForwardRequest l)] msg c'
               = (rs, [SignTypedData d t fr], c')"
      by blast
    from signRequest_cases [OF sr] have "[SignTypedData d t fr] = [SignTypedData ?d [(''ForwardRequest'', ForwardRequest l)] msg]"
      by (cases "isPermitCall ct fn args"; cases "isWalletConnectSigner s") auto
    then show ?thesis by simp
  qed
  have c: "\<exists>sender fr. ps = [toLowerCase sender,
               JSON_stringify l (getPayload l ?d [(''ForwardRequest'', ForwardRequest l)] fr)]"
    if ev: "RpcSend meth ps \<in> set tr" for meth ps
  proof -
    have "\<exists>s sender msg rs.
             signRequest l s ct fn args sender ?d [(''ForwardRequest'', ForwardRequest l)] msg c'
               = (rs, [RpcSend meth ps], c')"
      by (rule a [OF ev]) simp_all
    then obtain s sender msg rs where
      sr: "signRequest l s ct fn args sender ?d [(''ForwardRequest'', ForwardRequest l)] msg c'
               = (rs, [RpcSend meth ps], c')"
      by blast
    from signRequest_cases [OF sr] have "[RpcSend meth ps] = [RpcSend ''eth_signTypedData''
         [toLowerCase sender, JSON_stringify l (getPayload l ?d [(''ForwardRequest'', ForwardRequest l)] msg)]]"
      by (cases "isPermitCall ct fn args"; cases "isWalletConnectSigner s") auto
    then show ?thesis by blast
  qed
  show ?thesis
  proof (intro conjI allI impI)
    fix d t fr assume "SignTypedData d t fr \<in> set tr"
    then show "d = ?d" by (rule b)
  next
    fix meth ps assume "RpcSend meth ps \<in> set tr"
    then show "\<exists>sender fr. ps = [toLowerCase sender,
               JSON_stringify l (getPayload l ?d [(''ForwardRequest'', ForwardRequest l)] fr)]"
      by (rule c)
  qed
qed

theorem signing_domain_witness:
  "contract_provider (readOnlyContract (ex_module ''https://relay'' (Some (ex_signer False))))
     = Some ex_provider \<and>
   getNetwork ex_provider = Inr 137 \<and>
   SignTypedData
     \<lparr>domain_name = ''GSNv2 Forwarder'', domain_version = ''0.0.1'',
       domain_chainId = 137, domain_verifyingContract = ''0xF0''\<rparr>
     [(''ForwardRequest'', ForwardRequest (ex_lib 27))]
     \<lparr>req_from = ''0xAbCd'', req_to = ''0xModule'', req_value = ''0'',
       req_gas = ''60000'', req_nonce = ''7'', req_data = ''0xdata''\<rparr>
     \<in> set (fst (snd (sendGaslessTransaction (ex_lib 27)
            (ex_module ''https://relay'' (Some (ex_signer False)))
            (ex_contract ''0xModule'' [] 30000) ''grantRole'' [JStr ''0xrole'', JStr ''0xwho'']
            \<lparr>ov_value = None, ov_gasPrice = None\<rparr> Map.empty))) \<and>
   \<lparr>domain_name = ''GSNv2 Forwarder'', domain_version = ''0.0.1'',
     domain_chainId = 137, domain_verifyingContract = ''0xF0''\<rparr> =
   \<lparr>domain_name = ''GSNv2 Forwarder'', domain_version = ''0.0.1'',
     domain_chainId = 137,
     domain_verifyingContract = transactionRelayerForwarderAddress
       (options (ex_module ''https://relay'' (Some (ex_signer False))))\<rparr>"
proof -
  let ?md = "ex_module ''https://relay'' (Some (ex_signer False))"
  let ?run = "sendGaslessTransaction (ex_lib 27) ?md
          (ex_contract ''0xModule'' [] 30000) ''grantRole'' [JStr ''0xrole'', JStr ''0xwho'']
          \<lparr>ov_value = None, ov_gasPrice = None\<rparr> Map.empty"
  let ?fr = "\<lparr>req_from = ''0xAbCd'', req_to = ''0xModule'', req_value = ''0'',
          req_gas = ''60000'', req_nonce = ''7'', req_data = ''0xdata''\<rparr>"
  let ?d = "\<lparr>domain_name = ''GSNv2 Forwarder'', domain_version = ''0.0.1'',
       domain_chainId = 137, domain_verifyingContract = ''0xF0''\<rparr>"
  have run: "?run = (fst ?run, fst (snd ?run), snd (snd ?run))" by simp
  have pv: "contract_provider (readOnlyContract ?md) = Some ex_provider"
    by (simp add: ex_defs)
  have net: "getNetwork ex_provider = Inr 137" by (simp add: ex_defs)
  have ev: "SignTypedData ?d [(''ForwardRequest'', ForwardRequest (ex_lib 27))] ?fr
              \<in> set (fst (snd ?run))"
    by (simp add: run_defs)
  note sd = signing_domain [OF run pv net, THEN conjunct1, rule_format, OF ev]
  from pv net ev sd show ?thesis by (intro conjI)
qed

subsection \<open>Typed-data signing: WalletConnect or native\<close>

text \<open>
  C4. When a gasless call submits a forward request \<open>fr\<close> with signature \<open>sg\<close>, the call is
  not a permit call and \<open>sg\<close> was obtained as follows. If the signer's provider has the flag
  \<^verbatim>\<open>isWalletConnect\<close> set, \<open>sg\<close> is the answer to the JSON-RPC method "eth_signTypedData"
  sent through the signer's provider with the parameters lower-cased sender address and
  JSON-serialised typed-data payload of domain, types and \<open>fr\<close>, and the native entry point
  is not called. Otherwise \<open>sg\<close> is the answer of the signer's native typed-data entry
  point on the same domain, types and \<open>fr\<close>, and nothing is sent over JSON-RPC.
\<close>

theorem typed_data_signing_path:
  assumes run: "sendGaslessTransaction l this ct fn args ov c = (res, tr, c')"
      and sg: "signer this = Some s" and addr: "getAddress s = Inr sender"
      and pv: "contract_provider (readOnlyContract this) = Some pv"
      and net: "getNetwork pv = Inr cid"
      and rel: "RelaySend (ForwardRequestMessage fr) sig \<in> set tr"
  shows "\<not> isPermitCall ct fn args \<and>
         (if isWalletConnectSigner s then
            (\<exists>sp. signer_provider s = Some sp \<and>
               send sp ''eth_signTypedData''
                 [toLowerCase sender,
                  JSON_stringify l (getPayload l
                    \<lparr>domain_name = ''GSNv2 Forwarder'', domain_version = ''0.0.1'',
                      domain_chainId = cid,
                      domain_verifyingContract = transactionRelayerForwarderAddress (options this)\<rparr>
                    [(''ForwardRequest'', ForwardRequest l)] fr)] = Inr sig \<and>
               RpcSend ''eth_signTypedData''
                 [toLowerCase sender,
                  JSON_stringify l (getPayload l
                    \<lparr>domain_name = ''GSNv2 Forwarder'', domain_version = ''0.0.1'',
                      domain_chainId = cid,
                      domain_verifyingContract = transactionRelayerForwarderAddress (options this)\<rparr>
                    [(''ForwardRequest'', ForwardRequest l)] fr)] \<in> set tr) \<and>
            (\<forall>d t m. SignTypedData d t m \<notin> set tr)
          else
            signTypedData s
              \<lparr>domain_name = ''GSNv2 Forwarder'', domain_version = ''0.0.1'',
                domain_chainId = cid,
                domain_verifyingContract = transactionRelayerForwarderAddress (options this)\<rparr>
              [(''ForwardRequest'', ForwardRequest l)] fr = Inr sig \<and>
            SignTypedData
              \<lparr>domain_name = ''GSNv2 Forwarder'', domain_version = ''0.0.1'',
                domain_chainId = cid,
                domain_verifyingContract = transactionRelayerForwarderAddress (options this)\<rparr>
              [(''ForwardRequest'', ForwardRequest l)] fr \<in> set tr \<and>
            (\<forall>meth ps. RpcSend meth ps \<notin> set tr))"
proof -
  let ?d = "\<lparr>domain_name = ''GSNv2 Forwarder'', domain_version = ''0.0.1'',
              domain_chainId = cid,
              domain_verifyingContract = transactionRelayerForwarderAddress (options this)\<rparr>"
  let ?t = "[(''ForwardRequest'', ForwardRequest l)]"
  from gasless_relay [OF run rel] obtain s' pv' cid' sender' dmn tys msg ev n trn where
    p: "signer this = Some s'" "contract_provider (readOnlyContract this) = Some pv'"
       "getNetwork pv' = Inr cid'" "getAddress s' = Inr sender'"
       "dmn = \<lparr>domain_name = ''GSNv2 Forwarder'', domain_version = ''0.0.1'',
                   domain_chainId = cid',
                   domain_verifyingContract = transactionRelayerForwarderAddress (options this)\<rparr>"
       "tys = [(''ForwardRequest'', ForwardRequest l)]"
    and nn: "getAndIncrementNonce l (transactionRelayerForwarderAddress (options this)) sender' c
             = (Inr n, trn, c')"
    and sr: "signRequest l s' ct fn args sender' dmn tys msg c' = (Inr (ForwardRequestMessage fr, sig), [ev], c')"
    and tr: "tr = GetNetwork # GetAddress # EstimateGas (contract_address ct) fn args # trn @
                  ev # RelaySend (ForwardRequestMessage fr) sig #
                  (case transactionRelayerSendFunction (options this) (ForwardRequestMessage fr) sig of
                     Inl er \<Rightarrow> [] | Inr h \<Rightarrow> [WaitForTransaction h])"
    by blast
  from p sg addr pv net have eqs: "s' = s" "sender' = sender" "dmn = ?d" "tys = ?t"
    by simp_all
  from nonce_cases [OF nn]
  have trn: "trn = [] \<or> trn = [GetNonce (transactionRelayerForwarderAddress (options this)) sender']"
    by simp
  have tl: "(case transactionRelayerSendFunction (options this) (ForwardRequestMessage fr) sig of
               Inl er \<Rightarrow> [] | Inr h \<Rightarrow> [WaitForTransaction h]) = [] \<or>
            (\<exists>h. (case transactionRelayerSendFunction (options this) (ForwardRequestMessage fr) sig of
               Inl er \<Rightarrow> [] | Inr h \<Rightarrow> [WaitForTransaction h]) = [WaitForTransaction h])"
    by (cases "transactionRelayerSendFunction (options this) (ForwardRequestMessage fr) sig") auto
  from signRequest_forward [OF sr] have f: "fr = msg" "\<not> isPermitCall ct fn args"
    and w: "if isWalletConnectSigner s' then
            (\<exists>sp. signer_provider s' = Some sp \<and>
               send sp ''eth_signTypedData''
                 [toLowerCase sender', JSON_stringify l (getPayload l dmn tys msg)] = Inr sig \<and>
               [ev] = [RpcSend ''eth_signTypedData''
                        [toLowerCase sender', JSON_stringify l (getPayload l dmn tys msg)]])
          else signTypedData s' dmn tys msg = Inr sig \<and> [ev] = [SignTypedData dmn tys msg]"
    by (auto split: if_splits)
  show ?thesis
  proof (cases "isWalletConnectSigner s")
    case True
    with w eqs f obtain sp where sp: "signer_provider s = Some sp"
      "send sp ''eth_signTypedData''
                 [toLowerCase sender, JSON_stringify l (getPayload l ?d ?t fr)] = Inr sig"
      "ev = RpcSend ''eth_signTypedData''
                 [toLowerCase sender, JSON_stringify l (getPayload l ?d ?t fr)]"
      by auto
    from tr sp(3) trn tl have "RpcSend ''eth_signTypedData''
                 [toLowerCase sender, JSON_stringify l (getPayload l ?d ?t fr)] \<in> set tr"
      and "\<forall>d t m. SignTypedData d t m \<notin> set tr"
      by auto
    with True f sp show ?thesis by simp
  next
    case False
    with w eqs f have sp: "signTypedData s ?d ?t fr = Inr sig" "ev = SignTypedData ?d ?t fr"
      by auto
    from tr sp(2) trn tl have "SignTypedData ?d ?t fr \<in> set tr"
      and "\<forall>meth ps. RpcSend meth ps \<notin> set tr"
      by auto
    with False f sp show ?thesis by simp
  qed
qed


theorem typed_data_signing_path_witness:
  "signer (ex_module ''https://relay'' (Some (ex_signer True))) = Some (ex_signer True) \<and>
   getAddress (ex_signer True) = Inr ''0xAbCd'' \<and>
   contract_provider (readOnlyContract (ex_module ''https://relay'' (Some (ex_signer True))))
     = Some ex_provider \<and>
   getNetwork ex_provider = Inr 137 \<and>
   RelaySend (ForwardRequestMessage
       \<lparr>req_from = ''0xAbCd'', req_to = ''0xModule'', req_value = ''0'',
         req_gas = ''60000'', req_nonce = ''7'', req_data = ''0xdata''\<rparr>) ''0xrpcsig''
     \<in> set (fst (snd (sendGaslessTransaction (ex_lib 27)
            (ex_module ''https://relay'' (Some (ex_signer True)))
            (ex_contract ''0xModule'' [] 30000) ''grantRole'' [JStr ''0xrole'', JStr ''0xwho'']
            \<lparr>ov_value = None, ov_gasPrice = None\<rparr> Map.empty))) \<and>
   isWalletConnectSigner (ex_signer True) \<and>
   RpcSend ''eth_signTypedData'' [''0xabcd'', ''{payload}'']
     \<in> set (fst (snd (sendGaslessTransaction (ex_lib 27)
            (ex_module ''https://relay'' (Some (ex_signer True)))
            (ex_contract ''0xModule'' [] 30000) ''grantRole'' [JStr ''0xrole'', JStr ''0xwho'']
            \<lparr>ov_value = None, ov_gasPrice = None\<rparr> Map.empty)))"
proof -
  let ?md = "ex_module ''https://relay'' (Some (ex_signer True))"
  let ?run = "sendGaslessTransaction (ex_lib 27) ?md
          (ex_contract ''0xModule'' [] 30000) ''grantRole'' [JStr ''0xrole'', JStr ''0xwho'']
          \<lparr>ov_value = None, ov_gasPrice = None\<rparr> Map.empty"
  let ?fr = "\<lparr>req_from = ''0xAbCd'', req_to = ''0xModule'', req_value = ''0'',
          req_gas = ''60000'', req_nonce = ''7'', req_data = ''0xdata''\<rparr>"
  have run: "?run = (fst ?run, fst (snd ?run), snd (snd ?run))" by simp
  have sg: "signer ?md = Some (ex_signer True)" by (simp add: ex_defs)
  have addr: "getAddress (ex_signer True) = Inr ''0xAbCd''" by (simp add: ex_defs)
  have pv: "contract_provider (readOnlyContract ?md) = Some ex_provider"
    by (simp add: ex_defs)
  have net: "getNetwork ex_provider = Inr 137" by (simp add: ex_defs)
  have rel: "RelaySend (ForwardRequestMessage ?fr) ''0xrpcsig'' \<in> set (fst (snd ?run))"
    by (simp add: run_defs)
  have wc: "isWalletConnectSigner (ex_signer True)"
    by (simp add: isWalletConnectSigner_def ex_defs)
  note t = typed_data_signing_path [OF run sg addr pv net rel, THEN conjunct2]
  from t wc have "RpcSend ''eth_signTypedData''
      [toLowerCase ''0xAbCd'',
       JSON_stringify (ex_lib 27) (getPayload (ex_lib 27)
          \<lparr>domain_name = ''GSNv2 Forwarder'', domain_version = ''0.0.1'',
            domain_chainId = 137,
            domain_verifyingContract = transactionRelayerForwarderAddress (options ?md)\<rparr>
          [(''ForwardRequest'', ForwardRequest (ex_lib 27))] ?fr)] \<in> set (fst (snd ?run))"
    by (simp only: if_True) (elim conjE exE)
  then have r: "RpcSend ''eth_signTypedData'' [''0xabcd'', ''{payload}''] \<in> set (fst (snd ?run))"
    by (simp add: toLowerCase_def ex_lib_def)
  from sg addr pv net rel wc r show ?thesis by (intro conjI)
qed

subsection \<open>Decimal rendering is injective\<close>

lemma dec_digit_inj:
  assumes "a < 10" "b < 10" "''0123456789'' ! a = ''0123456789'' ! b"
  shows "a = b"
proof -
  have d: "distinct ''0123456789''" by simp
  from assms d show ?thesis by (simp add: nth_eq_iff_index_eq)
qed

lemma dec_digits_nonempty: "dec_digits n \<noteq> []"
  by (subst dec_digits.simps) simp

lemma dec_digits_set: "set (dec_digits n) \<subseteq> set ''0123456789''"
proof (induction n rule: dec_digits.induct)
  case (1 n)
  show ?case
  proof (cases "n < 10")
    case True
    have "''0123456789'' ! n \<in> set ''0123456789''"
      using True by (intro nth_mem) simp
    with True show ?thesis by (subst dec_digits.simps) simp
  next
    case False
    have "''0123456789'' ! (n mod 10) \<in> set ''0123456789''"
      by (intro nth_mem) simp
    with False 1 show ?thesis by (subst dec_digits.simps) simp
  qed
qed

lemma dec_digits_inj: "dec_digits a = dec_digits b \<Longrightarrow> a = b"
proof (induction a arbitrary: b rule: dec_digits.induct)
  case (1 a)
  show ?case
  proof (cases "a < 10")
    case a: True
    show ?thesis
    proof (cases "b < 10")
      case True
      with a 1(2) show ?thesis
        by (simp add: dec_digits.simps [of a] dec_digits.simps [of b] dec_digit_inj)
    next
      case False
      with a 1(2) show ?thesis
        using dec_digits_nonempty [of "b div 10"]
        by (simp add: dec_digits.simps [of a] dec_digits.simps [of b])
    qed
  next
    case a: False
    show ?thesis
    proof (cases "b < 10")
      case True
      with a 1(2) show ?thesis
        using dec_digits_nonempty [of "a div 10"]
        by (simp add: dec_digits.simps [of a] dec_digits.simps [of b])
    next
      case False
      with a 1(2) have e: "dec_digits (a div 10) = dec_digits (b div 10)"
        "''0123456789'' ! (a mod 10) = ''0123456789'' ! (b mod 10)"
        by (simp_all add: dec_digits.simps [of a] dec_digits.simps [of b])
      from 1(1) [OF a e(1)] have q: "a div 10 = b div 10" .
      from e(2) have r: "a mod 10 = b mod 10" by (intro dec_digit_inj) simp_all
      from q r show ?thesis by (metis div_mult_mod_eq)
    qed
  qed
qed

lemma bn_toString_inj: "bn_toString i = bn_toString j \<Longrightarrow> i = j"
proof -
  assume e: "bn_toString i = bn_toString j"
  have m: "CHR ''-'' # xs \<noteq> dec_digits n" for xs n
  proof
    assume "CHR ''-'' # xs = dec_digits n"
    then have "CHR ''-'' \<in> set (dec_digits n)" by (metis list.set_intros(1))
    with dec_digits_set [of n] show False by auto
  qed
  show ?thesis
  proof (cases "i < 0"; cases "j < 0")
    assume "i < 0" "j < 0"
    with e have "nat (- i) = nat (- j)" by (simp add: bn_toString_def dec_digits_inj)
    with \<open>i < 0\<close> \<open>j < 0\<close> show ?thesis by simp
  next
    assume "i < 0" "\<not> j < 0"
    with e m show ?thesis by (simp add: bn_toString_def)
  next
    assume "\<not> i < 0" "j < 0"
    with e m [of "dec_digits (nat (- j))" "nat i"] show ?thesis by (simp add: bn_toString_def)
  next
    assume "\<not> i < 0" "\<not> j < 0"
    with e have "nat i = nat j" by (simp add: bn_toString_def dec_digits_inj)
    with \<open>\<not> i < 0\<close> \<open>\<not> j < 0\<close> show ?thesis by simp
  qed
qed

subsection \<open>Forwarder nonce\<close>

lemma nonce_next:
  "getAndIncrementNonce l f s c = (Inr n, trn, c1) \<Longrightarrow>
   getAndIncrementNonce l f s c1 = (Inr (n + 1), [], c1(s \<mapsto> n + 2))"
  by (auto simp: getAndIncrementNonce_def split: option.splits sum.splits)

lemma nonce_source:
  "getAndIncrementNonce l f s c = (Inr n, trn, c1) \<Longrightarrow>
   (case c s of Some k \<Rightarrow> n = k | None \<Rightarrow> forwarder_getNonce l f s = Inr n)"
  by (auto simp: getAndIncrementNonce_def split: option.splits sum.splits)

text \<open>
  C3. When a gasless call submits a forward request, its \<^verbatim>\<open>nonce\<close> field is the decimal
  rendering of the value \<open>n\<close> that the nonce source returned for the sender in this call
  (the cached value, or without one the forwarder's \<^verbatim>\<open>getNonce\<close>), and afterwards the cache
  holds \<open>n + 1\<close> for the sender. A forward request submitted by the next gasless call of the
  same module therefore carries the nonce \<open>n + 1\<close>, a different string, and leaves \<open>n + 2\<close>
  in the cache.
\<close>

theorem forward_request_nonce:
  assumes run: "sendGaslessTransaction l this ct fn args ov c = (res, tr, c')"
      and sg: "signer this = Some s" and addr: "getAddress s = Inr sender"
      and rel: "RelaySend (ForwardRequestMessage fr) sig \<in> set tr"
  shows "\<exists>n trn.
           getAndIncrementNonce l (transactionRelayerForwarderAddress (options this)) sender c
             = (Inr n, trn, c') \<and>
           (case c sender of
              Some k \<Rightarrow> n = k
            | None \<Rightarrow> forwarder_getNonce l (transactionRelayerForwarderAddress (options this))
                        sender = Inr n) \<and>
           req_nonce fr = bn_toString n \<and>
           c' sender = Some (n + 1) \<and>
           (\<forall>ct2 fn2 args2 ov2 res2 tr2 c2 fr2 sig2.
              sendGaslessTransaction l this ct2 fn2 args2 ov2 c' = (res2, tr2, c2) \<and>
              RelaySend (ForwardRequestMessage fr2) sig2 \<in> set tr2 \<longrightarrow>
              req_nonce fr2 = bn_toString (n + 1) \<and> req_nonce fr2 \<noteq> req_nonce fr \<and>
              c2 sender = Some (n + 2))"
proof -
  let ?f = "transactionRelayerForwarderAddress (options this)"
  have fields: "\<exists>n trn. getAndIncrementNonce l ?f sender c0 = (Inr n, trn, c1) \<and>
                  c1 = c0(sender \<mapsto> n + 1) \<and> req_nonce fr0 = bn_toString n"
    if r: "sendGaslessTransaction l this ct0 fn0 args0 ov0 c0 = (res0, tr0, c1)"
    and e: "RelaySend (ForwardRequestMessage fr0) sig0 \<in> set tr0"
    for ct0 fn0 args0 ov0 c0 res0 tr0 c1 fr0 sig0
  proof -
    from gasless_relay [OF r e] obtain s' sender' data e' n trn dmn tys msg ev where
      p: "signer this = Some s'" "getAddress s' = Inr sender'"
      and nn: "getAndIncrementNonce l ?f sender' c0 = (Inr n, trn, c1)"
      and c1: "c1 = c0(sender' \<mapsto> n + 1)"
      and msg: "msg = \<lparr>req_from = sender', req_to = address this,
                   req_value = bn_toString (case ov_value ov0 of None \<Rightarrow> 0 | Some v \<Rightarrow> v),
                   req_gas = bn_toString (forwardedGas e'), req_nonce = bn_toString n,
                   req_data = data\<rparr>"
      and sr: "signRequest l s' ct0 fn0 args0 sender' dmn tys msg c1
                 = (Inr (ForwardRequestMessage fr0, sig0), [ev], c1)"
      by blast
    from p sg addr have s: "sender' = sender" by simp
    from signRequest_forward [OF sr] have "fr0 = msg" by simp
    with msg have "req_nonce fr0 = bn_toString n" by simp
    with nn c1 s show ?thesis by blast
  qed
  from fields [OF run rel] obtain n trn where
    nn: "getAndIncrementNonce l ?f sender c = (Inr n, trn, c')"
    and c': "c' = c(sender \<mapsto> n + 1)"
    and fr: "req_nonce fr = bn_toString n"
    by blast
  have second: "req_nonce fr2 = bn_toString (n + 1) \<and> req_nonce fr2 \<noteq> req_nonce fr \<and>
                c2 sender = Some (n + 2)"
    if r: "sendGaslessTransaction l this ct2 fn2 args2 ov2 c' = (res2, tr2, c2)"
    and e: "RelaySend (ForwardRequestMessage fr2) sig2 \<in> set tr2"
    for ct2 fn2 args2 ov2 res2 tr2 c2 fr2 sig2
  proof -
    from fields [OF r e] obtain n2 trn2 where
      n2: "getAndIncrementNonce l ?f sender c' = (Inr n2, trn2, c2)"
      and c2: "c2 = c'(sender \<mapsto> n2 + 1)"
      and fr2: "req_nonce fr2 = bn_toString n2"
      by blast
    from nonce_next [OF nn] n2 have "n2 = n + 1" by simp
    moreover have "bn_toString (n + 1) \<noteq> bn_toString n"
      using bn_toString_inj [of "n + 1" n] by auto
    ultimately show ?thesis using fr fr2 c2 by simp
  qed
  have c's: "c' sender = Some (n + 1)" using c' by simp
  from nn nonce_source [OF nn] fr c's second show ?thesis by blast
qed

theorem forward_request_nonce_witness:
  "signer (ex_module ''https://relay'' (Some (ex_signer False))) = Some (ex_signer False) \<and>
   getAddress (ex_signer False) = Inr ''0xAbCd'' \<and>
   RelaySend (ForwardRequestMessage
       \<lparr>req_from = ''0xAbCd'', req_to = ''0xModule'', req_value = ''0'',
         req_gas = ''60000'', req_nonce = ''7'', req_data = ''0xdata''\<rparr>) ''0xnativesig''
     \<in> set (fst (snd (sendGaslessTransaction (ex_lib 27)
            (ex_module ''https://relay'' (Some (ex_signer False)))
            (ex_contract ''0xModule'' [] 30000) ''grantRole'' [JStr ''0xrole'', JStr ''0xwho'']
            \<lparr>ov_value = None, ov_gasPrice = None\<rparr> Map.empty))) \<and>
   snd (snd (sendGaslessTransaction (ex_lib 27)
            (ex_module ''https://relay'' (Some (ex_signer False)))
            (ex_contract ''0xModule'' [] 30000) ''grantRole'' [JStr ''0xrole'', JStr ''0xwho'']
            \<lparr>ov_value = None, ov_gasPrice = None\<rparr> Map.empty)) ''0xAbCd'' = Some 8"
proof -
  let ?md = "ex_module ''https://relay'' (Some (ex_signer False))"
  let ?run = "sendGaslessTransaction (ex_lib 27) ?md
          (ex_contract ''0xModule'' [] 30000) ''grantRole'' [JStr ''0xrole'', JStr ''0xwho'']
          \<lparr>ov_value = None, ov_gasPrice = None\<rparr> Map.empty"
  let ?fr = "\<lparr>req_from = ''0xAbCd'', req_to = ''0xModule'', req_value = ''0'',
          req_gas = ''60000'', req_nonce = ''7'', req_data = ''0xdata''\<rparr>"
  have run: "?run = (fst ?run, fst (snd ?run), snd (snd ?run))" by simp
  have sg: "signer ?md = Some (ex_signer False)" by (simp add: ex_defs)
  have addr: "getAddress (ex_signer False) = Inr ''0xAbCd''" by (simp add: ex_defs)
  have rel: "RelaySend (ForwardRequestMessage ?fr) ''0xnativesig'' \<in> set (fst (snd ?run))"
    by (simp add: run_defs)
  have g: "getAndIncrementNonce (ex_lib 27) (transactionRelayerForwarderAddress (options ?md))
             ''0xAbCd'' Map.empty = (Inr 7, [GetNonce ''0xF0'' ''0xAbCd''], [''0xAbCd'' \<mapsto> 8])"
    by (simp add: getAndIncrementNonce_def ex_defs)
  from forward_request_nonce [OF run sg addr rel] obtain n where
    "getAndIncrementNonce (ex_lib 27) (transactionRelayerForwarderAddress (options ?md))
             ''0xAbCd'' Map.empty = (Inr n, [GetNonce ''0xF0'' ''0xAbCd''], snd (snd ?run))"
    "snd (snd ?run) ''0xAbCd'' = Some (n + 1)"
    unfolding g by auto
  with g have "snd (snd ?run) ''0xAbCd'' = Some 8" by simp
  with sg addr rel show ?thesis by (intro conjI)
qed

subsection \<open>The permit path still takes a forwarder nonce\<close>

text \<open>
  C10. When a gasless call takes the permit path (the permit is requested from the
  signer), the call is an \<^verbatim>\<open>approve\<close> on a token with \<^verbatim>\<open>permit\<close>, the nonce source has
  returned a value \<open>n\<close> for the sender and the cache holds \<open>n + 1\<close> afterwards. Any message
  then submitted is the permit request built from the token address and the answer of
  \<^verbatim>\<open>signERC2612Permit\<close> on signer, token, sender, spender and amount; it is the same
  message, with the same signature, whatever the nonce cache was before the call.
\<close>

theorem permit_path_consumes_nonce:
  assumes run: "sendGaslessTransaction l this ct fn args ov c = (res, tr, c')"
      and sg: "signer this = Some s" and addr: "getAddress s = Inr sender"
      and ev: "SignPermit tok own sp amt \<in> set tr"
  shows "isPermitCall ct fn args \<and>
         (\<exists>n trn.
            getAndIncrementNonce l (transactionRelayerForwarderAddress (options this)) sender c
              = (Inr n, trn, c') \<and>
            c' sender = Some (n + 1)) \<and>
         (\<forall>m sig. RelaySend m sig \<in> set tr \<longrightarrow>
            (\<exists>pm. signERC2612Permit l s (contract_address ct) sender (args ! 0) (args ! 1) = Inr pm \<and>
               m = PermitRequestMessage (contract_address ct) pm \<and>
               sig = permit_r pm @ drop 2 (permit_s pm) @ toString16 (permit_v pm)) \<and>
            (\<forall>d res2 tr2 d' m2 sig2.
               sendGaslessTransaction l this ct fn args ov d = (res2, tr2, d') \<and>
               RelaySend m2 sig2 \<in> set tr2 \<longrightarrow> m2 = m \<and> sig2 = sig))"
proof -
  let ?f = "transactionRelayerForwarderAddress (options this)"
  have l: "late (SignPermit tok own sp amt)" "\<forall>m sg. SignPermit tok own sp amt \<noteq> RelaySend m sg"
    "\<forall>h. SignPermit tok own sp amt \<noteq> WaitForTransaction h"
    by simp_all
  from gasless_sign [OF run ev l] obtain s' sender' n trn dmn tys msg rs where
    p: "signer this = Some s'" "getAddress s' = Inr sender'"
    and nn: "getAndIncrementNonce l ?f sender' c = (Inr n, trn, c')"
    and c': "c' = c(sender' \<mapsto> n + 1)"
    and sr: "signRequest l s' ct fn args sender' dmn tys msg c' = (rs, [SignPermit tok own sp amt], c')"
    by blast
  from p sg addr have s: "s' = s" "sender' = sender" by simp_all
  from signRequest_cases [OF sr] have pc: "isPermitCall ct fn args"
    by (cases "isPermitCall ct fn args"; cases "isWalletConnectSigner s'") auto
  have relay: "\<exists>pm. signERC2612Permit l s (contract_address ct) sender (args ! 0) (args ! 1) = Inr pm \<and>
               m = PermitRequestMessage (contract_address ct) pm \<and>
               sig = permit_r pm @ drop 2 (permit_s pm) @ toString16 (permit_v pm)"
    if r: "sendGaslessTransaction l this ct fn args ov d = (res0, tr0, d')"
    and e: "RelaySend m sig \<in> set tr0" for d res0 tr0 d' m sig
  proof -
    from gasless_relay [OF r e] obtain s0 sender0 dmn0 tys0 msg0 ev0 where
      p0: "signer this = Some s0" "getAddress s0 = Inr sender0"
      and sr0: "signRequest l s0 ct fn args sender0 dmn0 tys0 msg0 d' = (Inr (m, sig), [ev0], d')"
      by blast
    from p0 sg addr have s0: "s0 = s" "sender0 = sender" by simp_all
    from signRequest_kind [OF sr0] pc obtain pm where m: "m = PermitRequestMessage (contract_address ct) pm"
      by auto
    from signRequest_permit [OF sr0 [unfolded m]] s0 m show ?thesis by simp
  qed
  have same: "m2 = m \<and> sig2 = sig"
    if r1: "RelaySend m sig \<in> set tr"
    and r2: "sendGaslessTransaction l this ct fn args ov d = (res2, tr2, d')"
    and e2: "RelaySend m2 sig2 \<in> set tr2" for m sig d res2 tr2 d' m2 sig2
    using relay [OF run r1] relay [OF r2 e2] by auto
  have c's: "c' sender = Some (n + 1)" using c' s by simp
  from nn s have nn': "getAndIncrementNonce l ?f sender c = (Inr n, trn, c')" by simp
  show ?thesis
  proof (intro conjI allI impI)
    show "isPermitCall ct fn args" by (rule pc)
  next
    from nn' c's show "\<exists>n trn. getAndIncrementNonce l ?f sender c = (Inr n, trn, c') \<and>
            c' sender = Some (n + 1)" by blast
  next
    fix m sig assume "RelaySend m sig \<in> set tr"
    then show "\<exists>pm. signERC2612Permit l s (contract_address ct) sender (args ! 0) (args ! 1) = Inr pm \<and>
               m = PermitRequestMessage (contract_address ct) pm \<and>
               sig = permit_r pm @ drop 2 (permit_s pm) @ toString16 (permit_v pm)"
      by (rule relay [OF run])
  next
    fix m sig d res2 tr2 d' m2 sig2
    assume "RelaySend m sig \<in> set tr"
      and "sendGaslessTransaction l this ct fn args ov d = (res2, tr2, d') \<and>
           RelaySend m2 sig2 \<in> set tr2"
    then show "m2 = m" using same by blast
  next
    fix m sig d res2 tr2 d' m2 sig2
    assume "RelaySend m sig \<in> set tr"
      and "sendGaslessTransaction l this ct fn args ov d = (res2, tr2, d') \<and>
           RelaySend m2 sig2 \<in> set tr2"
    then show "sig2 = sig" using same by blast
  qed
qed

theorem permit_path_consumes_nonce_witness:
  "signer (ex_module ''https://relay'' (Some (ex_signer False))) = Some (ex_signer False) \<and>
   getAddress (ex_signer False) = Inr ''0xAbCd'' \<and>
   SignPermit ''0xToken'' ''0xAbCd'' (JStr ''0xModule'') (JNum 5)
     \<in> set (fst (snd (sendGaslessTransaction (ex_lib 27)
            (ex_module ''https://relay'' (Some (ex_signer False)))
            (ex_contract ''0xToken'' erc20_functions 30000) ''approve''
            [JStr ''0xModule'', JNum 5]
            \<lparr>ov_value = None, ov_gasPrice = None\<rparr> Map.empty))) \<and>
   snd (snd (sendGaslessTransaction (ex_lib 27)
            (ex_module ''https://relay'' (Some (ex_signer False)))
            (ex_contract ''0xToken'' erc20_functions 30000) ''approve''
            [JStr ''0xModule'', JNum 5]
            \<lparr>ov_value = None, ov_gasPrice = None\<rparr> Map.empty)) ''0xAbCd'' = Some 8"
proof -
  let ?md = "ex_module ''https://relay'' (Some (ex_signer False))"
  let ?run = "sendGaslessTransaction (ex_lib 27) ?md
          (ex_contract ''0xToken'' erc20_functions 30000) ''approve''
          [JStr ''0xModule'', JNum 5]
          \<lparr>ov_value = None, ov_gasPrice = None\<rparr> Map.empty"
  have run: "?run = (fst ?run, fst (snd ?run), snd (snd ?run))" by simp
  have sg: "signer ?md = Some (ex_signer False)" by (simp add: ex_defs)
  have addr: "getAddress (ex_signer False) = Inr ''0xAbCd''" by (simp add: ex_defs)
  have ev: "SignPermit ''0xToken'' ''0xAbCd'' (JStr ''0xModule'') (JNum 5) \<in> set (fst (snd ?run))"
    by (simp add: run_defs)
  have g: "getAndIncrementNonce (ex_lib 27) (transactionRelayerForwarderAddress (options ?md))
             ''0xAbCd'' Map.empty = (Inr 7, [GetNonce ''0xF0'' ''0xAbCd''], [''0xAbCd'' \<mapsto> 8])"
    by (simp add: getAndIncrementNonce_def ex_defs)
  from permit_path_consumes_nonce [OF run sg addr ev] obtain n where
    "getAndIncrementNonce (ex_lib 27) (transactionRelayerForwarderAddress (options ?md))
             ''0xAbCd'' Map.empty = (Inr n, [GetNonce ''0xF0'' ''0xAbCd''], snd (snd ?run))"
    "snd (snd ?run) ''0xAbCd'' = Some (n + 1)"
    unfolding g by auto
  with g have "snd (snd ?run) ''0xAbCd'' = Some 8" by simp
  with sg addr ev show ?thesis by (intro conjI)
qed

subsection \<open>Signature-path selection and the packed permit signature\<close>

lemma toString16_small: "v < 16 \<Longrightarrow> length (toString16 v) = 1"
  by (subst toString16.simps) simp

lemma toString16_byte: "16 \<le> v \<Longrightarrow> v < 256 \<Longrightarrow> length (toString16 v) = 2"
  by (subst toString16.simps) (simp add: toString16_small)

text \<open>Whatever a gasless call submits is a permit request with the packed permit
  signature when the call is an \<^verbatim>\<open>approve\<close> with two arguments on a contract whose
  interface has both \<^verbatim>\<open>approve\<close> and \<^verbatim>\<open>permit\<close>, and a forward request otherwise.\<close>

lemma signature_path_selection:
  assumes run: "sendGaslessTransaction l this ct fn args ov c = (res, tr, c')"
      and sg: "signer this = Some s" and addr: "getAddress s = Inr sender"
      and rel: "RelaySend m sig \<in> set tr"
  shows "if isPermitCall ct fn args then
           (\<exists>pm. signERC2612Permit l s (contract_address ct) sender (args ! 0) (args ! 1) = Inr pm \<and>
              m = PermitRequestMessage (contract_address ct) pm \<and>
              sig = permit_r pm @ drop 2 (permit_s pm) @ toString16 (permit_v pm))
         else (\<exists>fr. m = ForwardRequestMessage fr)"
proof -
  from gasless_relay [OF run rel] obtain s0 sender0 dmn0 tys0 msg0 ev0 where
    p0: "signer this = Some s0" "getAddress s0 = Inr sender0"
    and sr0: "signRequest l s0 ct fn args sender0 dmn0 tys0 msg0 c' = (Inr (m, sig), [ev0], c')"
    by blast
  from p0 sg addr have s0: "s0 = s" "sender0 = sender" by simp_all
  show ?thesis
  proof (cases "isPermitCall ct fn args")
    case True
    with signRequest_kind [OF sr0] obtain pm where
      m: "m = PermitRequestMessage (contract_address ct) pm"
      by auto
    from signRequest_permit [OF sr0 [unfolded m]] s0 m True show ?thesis by simp
  next
    case False
    with signRequest_kind [OF sr0] show ?thesis by simp
  qed
qed

text \<open>
  C1, at a permit whose recovery id is below 16. The call is an \<^verbatim>\<open>approve\<close> with two
  arguments on a token that has \<^verbatim>\<open>permit\<close>, signed with \<open>v = 1\<close>, \<open>r = 0x1111\<close> and
  \<open>s = 0x2222\<close>. A permit request for the token is submitted, and the signature is \<open>r\<close>, then
  \<open>s\<close> without its prefix, then the single hexadecimal digit "1": \<open>v\<close> takes half a byte.
\<close>

theorem permit_signature_unpadded_v:
  "fst (snd (sendGaslessTransaction (ex_lib 1)
              (ex_module ''https://relay'' (Some (ex_signer False)))
              (ex_contract ''0xToken'' erc20_functions 30000) ''approve''
              [JStr ''0xModule'', JNum 5]
              \<lparr>ov_value = None, ov_gasPrice = None\<rparr> Map.empty)) =
     [GetNetwork, GetAddress,
      EstimateGas ''0xToken'' ''approve'' [JStr ''0xModule'', JNum 5],
      GetNonce ''0xF0'' ''0xAbCd'',
      SignPermit ''0xToken'' ''0xAbCd'' (JStr ''0xModule'') (JNum 5),
      RelaySend
        (PermitRequestMessage ''0xToken''
           \<lparr>permit_owner = ''0xAbCd'', permit_spender = ''0xModule'',
             permit_value = JNum 5, permit_nonce = JNum 0,
             permit_deadline = JNum 99, permit_v = 1, permit_r = ''0x1111'',
             permit_s = ''0x2222''\<rparr>)
        ''0x111122221'',
      WaitForTransaction ''0xabc''] \<and>
   toString16 1 = ''1'' \<and> length (toString16 1) = 1"
  by (simp add: run_defs)

subsection \<open>Fields of the forward request\<close>

lemma forward_request_fields:
  assumes run: "sendGaslessTransaction l this ct fn args ov c = (res, tr, c')"
      and sg: "signer this = Some s" and addr: "getAddress s = Inr sender"
      and rel: "RelaySend (ForwardRequestMessage fr) sig \<in> set tr"
  shows "req_from fr = sender \<and> req_to fr = address this \<and>
         req_value fr = bn_toString (case ov_value ov of None \<Rightarrow> 0 | Some v \<Rightarrow> v) \<and>
         encodeFunctionData ct fn args = Inr (req_data fr)"
proof -
  from gasless_relay [OF run rel] obtain s' sender' data e n dmn tys msg ev where
    p: "signer this = Some s'" "getAddress s' = Inr sender'"
       "encodeFunctionData ct fn args = Inr data"
    and msg: "msg = \<lparr>req_from = sender', req_to = address this,
                   req_value = bn_toString (case ov_value ov of None \<Rightarrow> 0 | Some v \<Rightarrow> v),
                   req_gas = bn_toString (forwardedGas e), req_nonce = bn_toString n,
                   req_data = data\<rparr>"
    and sr: "signRequest l s' ct fn args sender' dmn tys msg c'
               = (Inr (ForwardRequestMessage fr, sig), [ev], c')"
    by blast
  from signRequest_forward [OF sr] have "fr = msg" by simp
  with msg p sg addr show ?thesis by simp
qed

text \<open>
  C5, at a call on another contract. The module at \<open>0xModule\<close> sends \<^verbatim>\<open>approve\<close> to the
  ERC-20 token at \<open>0xToken\<close> (a token without \<^verbatim>\<open>permit\<close>) through
  \<^verbatim>\<open>sendContractTransaction\<close>, as \<^verbatim>\<open>claim\<close> of the bundle-drop module does. The
  call data is encoded and the gas is estimated on the token, but the \<^verbatim>\<open>to\<close> field of the
  forward request that is signed and submitted is the address of the module.
\<close>

theorem forward_request_to_is_module_address:
  "contract_address (ex_contract ''0xToken'' [''approve(address,uint256)''] 30000) = ''0xToken'' \<and>
   fst (snd (sendContractTransaction (ex_lib 27)
              (ex_module ''https://relay'' (Some (ex_signer False)))
              (ex_contract ''0xToken'' [''approve(address,uint256)''] 30000) ''approve''
              [JStr ''0xModule'', JNum 5] None Map.empty)) =
     [GetNetwork, GetGasPrice 137 ''fast'' 300, GetNetwork, GetAddress,
      EstimateGas ''0xToken'' ''approve'' [JStr ''0xModule'', JNum 5],
      GetNonce ''0xF0'' ''0xAbCd'',
      SignTypedData
        \<lparr>domain_name = ''GSNv2 Forwarder'', domain_version = ''0.0.1'',
          domain_chainId = 137, domain_verifyingContract = ''0xF0''\<rparr>
        [(''ForwardRequest'',
          [(''from'', ''address''), (''to'', ''address''), (''value'', ''uint256''),
           (''gas'', ''uint256''), (''nonce'', ''uint256''), (''data'', ''bytes'')])]
        \<lparr>req_from = ''0xAbCd'', req_to = ''0xModule'', req_value = ''0'',
          req_gas = ''60000'', req_nonce = ''7'', req_data = ''0xdata''\<rparr>,
      RelaySend
        (ForwardRequestMessage
           \<lparr>req_from = ''0xAbCd'', req_to = ''0xModule'', req_value = ''0'',
             req_gas = ''60000'', req_nonce = ''7'', req_data = ''0xdata''\<rparr>)
        ''0xnativesig'',
      WaitForTransaction ''0xabc'']"
  by (simp add: run_defs)

subsection \<open>Choice between the relay path and the standard path\<close>

text \<open>
  C7 as stated fails when the caller supplies call overrides: with no relayer configured
  and the overrides \<open>{value: 5}\<close>, the call is submitted with exactly these overrides. The
  gas-price oracle, which would yield 30 gwei for this chain, is not asked and no gas
  price is set.
\<close>

theorem caller_overrides_counterexample:
  "getGasPriceForChain (ex_lib 27) 137 ''fast'' 300 = Inr (Some 30) \<and>
   transactionRelayerUrl (options (ex_module [] (Some (ex_signer False)))) = [] \<and>
   fst (snd (sendContractTransaction (ex_lib 27)
              (ex_module [] (Some (ex_signer False)))
              (ex_contract ''0xModule'' [] 30000) ''claim'' [JNum 0, JNum 1]
              (Some \<lparr>ov_value = Some 5, ov_gasPrice = None\<rparr>) Map.empty)) =
     [ContractCall ''0xModule'' ''claim'' [JNum 0, JNum 1]
        \<lparr>ov_value = Some 5, ov_gasPrice = None\<rparr>,
      TxWait]"
  by (simp add: run_defs)

text \<open>
  C7, amended. A call through \<^verbatim>\<open>sendContractTransaction\<close> uses the caller's overrides
  when the caller supplies them; only without them it asks the provider for the chain id
  and the gas-price oracle for a price, and uses a gas-price override of that price in
  gwei, or no override when the oracle yields no price or zero. With these overrides the
  gasless relay path is taken exactly when \<^verbatim>\<open>transactionRelayerUrl\<close> is not empty; otherwise
  the call is submitted through the contract binding and, when the response has \<^verbatim>\<open>wait\<close>,
  the result of waiting is returned, else the response itself.
\<close>

theorem sendContractTransaction_paths:
  assumes "callOverrides = None \<longrightarrow>
             contract_provider (readOnlyContract this) = Some pv \<and> getNetwork pv = Inr cid \<and>
             getGasPriceForChain l cid (gasSpeed (options this)) (maxGasPriceInGwei (options this))
               = Inr g"
  shows "let ov = (case callOverrides of
                     Some given \<Rightarrow> given
                   | None \<Rightarrow>
                       (case g of
                          None \<Rightarrow> \<lparr>ov_value = None, ov_gasPrice = None\<rparr>
                        | Some p \<Rightarrow>
                            \<lparr>ov_value = None,
                             ov_gasPrice = (if p = 0 then None
                                            else Some (parseUnits l (bn_toString p) ''gwei''))\<rparr>));
             pre = (case callOverrides of
                      Some given \<Rightarrow> []
                    | None \<Rightarrow> [GetNetwork,
                               GetGasPrice cid (gasSpeed (options this))
                                 (maxGasPriceInGwei (options this))])
         in sendContractTransaction l this ct fn args callOverrides c =
              (if transactionRelayerUrl (options this) \<noteq> [] then
                 (case sendGaslessTransaction l this ct fn args ov c of
                    (r, tr, c1) \<Rightarrow> (r, pre @ tr, c1))
               else
                 (case contract_functions ct fn args ov of
                    Inl er \<Rightarrow> (Inl er, pre @ [ContractCall (contract_address ct) fn args ov], c)
                  | Inr (WithWait r) \<Rightarrow>
                      (r, pre @ [ContractCall (contract_address ct) fn args ov, TxWait], c)
                  | Inr (NoWait t) \<Rightarrow>
                      (Inr t, pre @ [ContractCall (contract_address ct) fn args ov], c)))"
proof (cases callOverrides)
  case None
  with assms have p: "contract_provider (readOnlyContract this) = Some pv" "getNetwork pv = Inr cid"
    "getGasPriceForChain l cid (gasSpeed (options this)) (maxGasPriceInGwei (options this)) = Inr g"
    by simp_all
  show ?thesis
    using None p
    by (cases g)
       (auto simp: sendContractTransaction_def getCallOverrides_def getChainID_def getProvider_def
          sendAndWaitForTransaction_def io_defs Let_def
          split: sum.splits tx.splits prod.splits)
next
  case (Some given)
  then show ?thesis
    by (auto simp: sendContractTransaction_def sendAndWaitForTransaction_def io_defs Let_def
          split: sum.splits tx.splits prod.splits)
qed

theorem sendContractTransaction_paths_witness:
  "contract_provider (readOnlyContract (ex_module [] (Some (ex_signer False))))
     = Some ex_provider \<and>
   getNetwork ex_provider = Inr 137 \<and>
   getGasPriceForChain (ex_lib 27) 137
     (gasSpeed (options (ex_module [] (Some (ex_signer False)))))
     (maxGasPriceInGwei (options (ex_module [] (Some (ex_signer False))))) = Inr (Some 30) \<and>
   sendContractTransaction (ex_lib 27) (ex_module [] (Some (ex_signer False)))
      (ex_contract ''0xModule'' [] 30000) ''claim'' [JNum 0, JNum 1] None Map.empty =
     (Inr \<lparr>status = 1, transactionHash = ''0xtx''\<rparr>,
      [GetNetwork, GetGasPrice 137 ''fast'' 300,
       ContractCall ''0xModule'' ''claim'' [JNum 0, JNum 1]
         \<lparr>ov_value = None, ov_gasPrice = Some 30000000000\<rparr>,
       TxWait],
      Map.empty)"
proof -
  let ?md = "ex_module [] (Some (ex_signer False))"
  have h: "(None :: callOverrides option) = None \<longrightarrow>
      contract_provider (readOnlyContract ?md) = Some ex_provider \<and>
      getNetwork ex_provider = Inr 137 \<and>
      getGasPriceForChain (ex_lib 27) 137 (gasSpeed (options ?md))
        (maxGasPriceInGwei (options ?md)) = Inr (Some 30)"
    by (simp add: ex_defs)
  note t = sendContractTransaction_paths [OF h, of "ex_contract ''0xModule'' [] 30000"
      "''claim''" "[JNum 0, JNum 1]" Map.empty]
  from t have "sendContractTransaction (ex_lib 27) ?md
      (ex_contract ''0xModule'' [] 30000) ''claim'' [JNum 0, JNum 1] None Map.empty =
     (Inr \<lparr>status = 1, transactionHash = ''0xtx''\<rparr>,
      [GetNetwork, GetGasPrice 137 ''fast'' 300,
       ContractCall ''0xModule'' ''claim'' [JNum 0, JNum 1]
         \<lparr>ov_value = None, ov_gasPrice = Some 30000000000\<rparr>,
       TxWait],
      Map.empty)"
    by (simp add: ex_defs Let_def)
  with h show ?thesis by simp
qed

end
